theory Spec2Isabelle
  imports Complex_Main "HOL-Library.Word" "HOL-Library.Log_Nat"
begin

unbundle bit_operations_syntax

section \<open>The INA226 driver of \<^verbatim>\<open>src/lib/sensors/INA_226.cpp\<close>\<close>

text \<open>
  The driver is one class, \<^verbatim>\<open>INA_226\<close>: a constructor, three scaled read accessors,
  one raw read accessor and four register writes. Every method is a fixed sequence of
  calls of the bus member \<^verbatim>\<open>i2c_\<close> on a small local buffer \<^verbatim>\<open>cmd\<close>.

  The header \<^verbatim>\<open>INA_226.h\<close> and the bus class are not part of the source tree, and the
  arithmetic on \<^verbatim>\<open>float\<close> is that of the target. Both enter the model as
  parameters: a record of float operations and a record of bus operations. Each
  method is then a function of these two records and of the object's state, and
  returns its outcome together with the object's state afterwards. The member
  \<^verbatim>\<open>i2c_\<close> is written \<open>i2c\<close> (a name cannot end in an underscore here).
\<close>

subsection \<open>Machine integers\<close>

type_synonym u_int8_t = "8 word"
type_synonym u_int16_t = "16 word"

text \<open>The pin names are an enumeration of the platform; they are only passed on.\<close>

type_synonym PinName = nat

subsection \<open>Float arithmetic\<close>

text \<open>
  The operations on \<^verbatim>\<open>float\<close> that the source uses, over a carrier \<open>'f\<close>:
  \<^item> \<open>flit\<close>: a decimal literal of the source converted to \<^verbatim>\<open>float\<close>;
  \<^item> \<open>fof_int\<close>: the conversion of an integer operand (after integer promotion);
  \<^item> \<open>fmul\<close>, \<open>fdiv\<close>: \<^verbatim>\<open>*\<close> and \<^verbatim>\<open>/\<close>;
  \<^item> \<open>fpow\<close>: \<^verbatim>\<open>pow\<close> of \<^verbatim>\<open>math.h\<close> called on two integer arguments;
  \<^item> \<open>fto_int\<close>: the conversion of a \<^verbatim>\<open>float\<close> to an integer, which
    \<^verbatim>\<open>calibrateSensor\<close> needs before it can apply \<^verbatim>\<open>&\<close> and \<^verbatim>\<open>>>\<close> to \<^verbatim>\<open>cal\<close>.
\<close>

record 'f float_ops =
  flit :: "rat \<Rightarrow> 'f"
  fof_int :: "int \<Rightarrow> 'f"
  fmul :: "'f \<Rightarrow> 'f \<Rightarrow> 'f"
  fdiv :: "'f \<Rightarrow> 'f \<Rightarrow> 'f"
  fpow :: "int \<Rightarrow> int \<Rightarrow> 'f"
  fto_int :: "'f \<Rightarrow> int"

text \<open>
  Modelled from the spec: the conversion of a \<^verbatim>\<open>float\<close> to an integer truncates
  (section 4.1 of the specification, on \<^verbatim>\<open>calibrateSensor\<close>); the source has no
  conversion of its own. With it, exact arithmetic on the rationals: no operation
  rounds.
\<close>

definition exact_arith :: "rat float_ops" where
  "exact_arith =
     \<lparr>flit = (\<lambda>q. q),
      fof_int = of_int,
      fmul = (\<lambda>a b. a * b),
      fdiv = (\<lambda>a b. a / b),
      fpow = (\<lambda>b e. if 0 \<le> e then of_int b ^ nat e else 1 / of_int b ^ nat (- e)),
      fto_int = (\<lambda>q. if 0 \<le> q then \<lfloor>q\<rfloor> else \<lceil>q\<rceil>)\<rparr>"

text \<open>
  The arithmetic of the target: IEEE 754 binary32 for \<^verbatim>\<open>float\<close>, binary64 for
  \<^verbatim>\<open>double\<close>, rounding to nearest with ties to even. A finite value of either
  format is a rational number.

  \<open>round_half_even x\<close> is the integer nearest to \<open>x\<close>, the even one of the two when
  \<open>x\<close> lies halfway.
\<close>

definition round_half_even :: "rat \<Rightarrow> int" where
  "round_half_even x =
     (let f = \<lfloor>x\<rfloor>; d = x - of_int f
      in if d < 1 / 2 then f else if 1 / 2 < d then f + 1 else if even f then f else f + 1)"

text \<open>
  \<open>round_float p k q\<close> rounds \<open>q\<close> to the format with \<open>p\<close> significant bits whose
  smallest positive value is \<open>2\<^sup>-\<^sup>k\<close>. In units of \<open>2\<^sup>-\<^sup>k\<close> the magnitude of \<open>q\<close> is
  \<open>N\<close>; \<open>magnitude p N\<close> rounds it: a value of at most \<open>p\<close> bits to an integer (the
  subnormal and the lowest normal range), a longer one to a multiple of \<open>2\<^sup>s\<close>, where
  \<open>s\<close> is the number of bits beyond \<open>p\<close>. Overflow to infinity is not part of the
  model: no value of the driver comes near the largest finite one.
\<close>

definition magnitude :: "nat \<Rightarrow> rat \<Rightarrow> rat" where
  "magnitude p N =
     of_int (round_half_even (N / 2 ^ nat (bitlen \<lfloor>N\<rfloor> - int p)))
       * 2 ^ nat (bitlen \<lfloor>N\<rfloor> - int p)"

definition round_float :: "nat \<Rightarrow> nat \<Rightarrow> rat \<Rightarrow> rat" where
  "round_float p k q = sgn q * (magnitude p (\<bar>q\<bar> * 2 ^ k) / 2 ^ k)"

definition binary32 :: "rat \<Rightarrow> rat" where
  "binary32 q = round_float 24 149 q"

definition binary64 :: "rat \<Rightarrow> rat" where
  "binary64 q = round_float 53 1074 q"

text \<open>
  The operations of the source in this arithmetic. A decimal literal is a
  \<^verbatim>\<open>double\<close> that initialises a \<^verbatim>\<open>float\<close>: it is rounded twice. A product or a
  quotient of two \<^verbatim>\<open>float\<close> values is rounded to \<^verbatim>\<open>float\<close>. \<^verbatim>\<open>pow\<close> returns a
  \<^verbatim>\<open>double\<close>; the quotient of line 15 is then a \<^verbatim>\<open>double\<close> narrowed to the member,
  which for a division by \<open>2\<^sup>1\<^sup>5\<close> is the same value as the quotient rounded once.
  The conversion to an integer truncates, as in \<open>exact_arith\<close>.
\<close>

definition binary32_arith :: "rat float_ops" where
  "binary32_arith =
     \<lparr>flit = (\<lambda>q. binary32 (binary64 q)),
      fof_int = (\<lambda>i. binary32 (of_int i)),
      fmul = (\<lambda>a b. binary32 (a * b)),
      fdiv = (\<lambda>a b. binary32 (a / b)),
      fpow = (\<lambda>b e. binary64 (if 0 \<le> e then of_int b ^ nat e else 1 / of_int b ^ nat (- e))),
      fto_int = (\<lambda>q. if 0 \<le> q then \<lfloor>q\<rfloor> else \<lceil>q\<rceil>)\<rparr>"

text \<open>
  What the bounds on the readings need of an arithmetic on an ordered carrier: the
  conversion of an integer and the product in its first argument preserve the order,
  zero times a constant is zero, and a literal that is not negative is converted to a
  value that is not negative. Zero is the conversion of the integer 0.
\<close>

definition order_preserving :: "('f :: order) float_ops \<Rightarrow> bool" where
  "order_preserving F \<longleftrightarrow>
     (\<forall>m n. m \<le> n \<longrightarrow> fof_int F m \<le> fof_int F n)
   \<and> (\<forall>a b k. a \<le> b \<and> fof_int F 0 \<le> k \<longrightarrow> fmul F a k \<le> fmul F b k)
   \<and> (\<forall>k. fmul F (fof_int F 0) k = fof_int F 0)
   \<and> (\<forall>q. 0 \<le> q \<longrightarrow> fof_int F 0 \<le> flit F q)"

subsection \<open>The constants of lines 7 to 10\<close>

definition INA_226_CALIBRATION_REGISTER_CONSTANT :: "'f float_ops \<Rightarrow> 'f" where
  "INA_226_CALIBRATION_REGISTER_CONSTANT F = flit F (512 / 100000)"

definition INA_226_CURRENT_REGISTER_LSB :: "'f float_ops \<Rightarrow> 'f" where
  "INA_226_CURRENT_REGISTER_LSB F = flit F (1 / 1000)"

definition INA_226_VOLTAGE_REGISTER_LSB :: "'f float_ops \<Rightarrow> 'f" where
  "INA_226_VOLTAGE_REGISTER_LSB F = flit F (125 / 100000)"

definition INA_226_POWER_REGISTER_LSB :: "'f float_ops \<Rightarrow> 'f" where
  "INA_226_POWER_REGISTER_LSB F = fmul F (fof_int F 25) (INA_226_CURRENT_REGISTER_LSB F)"

subsection \<open>The bus transport\<close>

text \<open>
  Modelled from the spec: the bus class behind the member \<^verbatim>\<open>i2c_\<close> (section 6 of the
  specification). \<open>'b\<close> is the state of the bus and of the devices on it, \<open>'e\<close> what
  the transport raises.
  \<^item> \<open>i2c_init sda scl\<close> is the handle on a pin pair;
  \<^item> \<open>i2c_write b address buffer length\<close> sends the first \<open>length\<close> bytes of the
    buffer; it raises (\<open>Inl\<close>) or returns a status (\<open>Inr\<close>, 0 for success);
  \<^item> \<open>i2c_read b address length repeated\<close> raises or returns a status and the bytes
    that arrived, in the order of arrival.
  Either way the bus has a state afterwards.
\<close>

record ('b, 'e) I2C =
  i2c_init :: "PinName \<Rightarrow> PinName \<Rightarrow> 'b"
  i2c_write :: "'b \<Rightarrow> u_int8_t \<Rightarrow> u_int8_t list \<Rightarrow> nat \<Rightarrow> ('e + int) \<times> 'b"
  i2c_read :: "'b \<Rightarrow> u_int8_t \<Rightarrow> nat \<Rightarrow> bool \<Rightarrow> ('e + int \<times> u_int8_t list) \<times> 'b"

text \<open>
  A read of \<open>len\<close> bytes into a buffer overwrites its first bytes with the bytes that
  arrived, at most \<open>len\<close> of them and never beyond the buffer; the rest of the buffer
  keeps its contents.
\<close>

definition store_received :: "u_int8_t list \<Rightarrow> nat \<Rightarrow> u_int8_t list \<Rightarrow> u_int8_t list" where
  "store_received buf len data =
     (let n = min (min len (length data)) (length buf) in take n data @ drop n buf)"

subsection \<open>The data of the header\<close>

text \<open>
  Modelled from the spec: the two parameter structures and the members of the class
  (section 3 of the specification); the header that declares them is not in the
  source tree. The address members and the five mode fields are unsigned bytes.
\<close>

record 'f ComponentConfig =
  SDA_pinname :: PinName
  SCL_pinname :: PinName
  sensor_address :: u_int8_t
  shunt_resistance :: 'f
  max_expected_current :: 'f

record SensorModes =
  operation_mode :: u_int8_t
  shunt_voltage_conversion_setting :: u_int8_t
  bus_voltage_conversion_setting :: u_int8_t
  average_mode_setting :: u_int8_t
  reset_registers :: u_int8_t

record ('f, 'b) INA_226 =
  m_max_expected_current :: 'f
  m_current_lsb :: 'f
  m_shunt_resistance :: 'f
  m_sensor_address :: u_int8_t
  i2c :: 'b
  m_config_register :: u_int8_t
  m_voltage_register :: u_int8_t
  m_power_register :: u_int8_t
  m_current_register :: u_int8_t
  m_calibration_register :: u_int8_t
  m_mask_enable_register :: u_int8_t
  m_alert_limit_register :: u_int8_t

subsection \<open>The constructor, lines 12 to 29\<close>

text \<open>
  \<^verbatim>\<open>sensor_address << 1\<close> is computed on \<^verbatim>\<open>int\<close> and narrowed to the byte member:
  the shift of the byte, modulo 256.
\<close>

definition INA_226 :: "'f float_ops \<Rightarrow> ('b, 'e) I2C \<Rightarrow> 'f ComponentConfig \<Rightarrow> ('f, 'b) INA_226" where
  "INA_226 F T component_config =
     \<lparr>m_max_expected_current = max_expected_current component_config,
      m_current_lsb = fdiv F (max_expected_current component_config) (fpow F 2 15),
      m_shunt_resistance = shunt_resistance component_config,
      m_sensor_address = push_bit 1 (sensor_address component_config),
      i2c = i2c_init T (SDA_pinname component_config) (SCL_pinname component_config),
      m_config_register = 0x00,
      m_voltage_register = 0x01,
      m_power_register = 0x03,
      m_current_register = 0x04,
      m_calibration_register = 0x05,
      m_mask_enable_register = 0x06,
      m_alert_limit_register = 0x07\<rparr>"

subsection \<open>The read accessors\<close>

text \<open>
  Each accessor writes one byte of \<^verbatim>\<open>cmd\<close>, reads two bytes back into \<^verbatim>\<open>cmd\<close> and
  computes \<^verbatim>\<open>cmd[1] << 8 | cmd[0]\<close> into a \<^verbatim>\<open>u_int16_t\<close>. The value either call
  returns is not used; nothing is caught. (Line 41 has a stray bracket after
  \<^verbatim>\<open>cmd[0]\<close>; the expression is read as in lines 53, 65 and 144.)
\<close>

definition getCurrentData ::
  "'f float_ops \<Rightarrow> ('b, 'e) I2C \<Rightarrow> ('f, 'b) INA_226 \<Rightarrow> ('e + 'f) \<times> ('f, 'b) INA_226" where
  "getCurrentData F T this =
     (let cmd = [m_current_register this, 0x00];
          (w, bus1) = i2c_write T (i2c this) (m_sensor_address this) cmd 1
      in case w of
           Inl e \<Rightarrow> (Inl e, this\<lparr>i2c := bus1\<rparr>)
         | Inr _ \<Rightarrow>
             (let (r, bus2) = i2c_read T bus1 (m_sensor_address this) 2 False
              in case r of
                   Inl e \<Rightarrow> (Inl e, this\<lparr>i2c := bus2\<rparr>)
                 | Inr (_, data) \<Rightarrow>
                     (let cmd = store_received cmd 2 data;
                          current_data = (push_bit 8 (ucast (cmd ! 1)) OR ucast (cmd ! 0) :: u_int16_t)
                      in (Inr (fmul F (fof_int F (uint current_data)) (INA_226_CURRENT_REGISTER_LSB F)),
                          this\<lparr>i2c := bus2\<rparr>))))"

definition getVoltageData ::
  "'f float_ops \<Rightarrow> ('b, 'e) I2C \<Rightarrow> ('f, 'b) INA_226 \<Rightarrow> ('e + 'f) \<times> ('f, 'b) INA_226" where
  "getVoltageData F T this =
     (let cmd = [m_voltage_register this, 0x00];
          (w, bus1) = i2c_write T (i2c this) (m_sensor_address this) cmd 1
      in case w of
           Inl e \<Rightarrow> (Inl e, this\<lparr>i2c := bus1\<rparr>)
         | Inr _ \<Rightarrow>
             (let (r, bus2) = i2c_read T bus1 (m_sensor_address this) 2 False
              in case r of
                   Inl e \<Rightarrow> (Inl e, this\<lparr>i2c := bus2\<rparr>)
                 | Inr (_, data) \<Rightarrow>
                     (let cmd = store_received cmd 2 data;
                          voltage_data = (push_bit 8 (ucast (cmd ! 1)) OR ucast (cmd ! 0) :: u_int16_t)
                      in (Inr (fmul F (fof_int F (uint voltage_data)) (INA_226_VOLTAGE_REGISTER_LSB F)),
                          this\<lparr>i2c := bus2\<rparr>))))"

text \<open>\<^verbatim>\<open>cmd[2] = {m_power_register}\<close>: the second byte is zero-initialised.\<close>

definition getPowerData ::
  "'f float_ops \<Rightarrow> ('b, 'e) I2C \<Rightarrow> ('f, 'b) INA_226 \<Rightarrow> ('e + 'f) \<times> ('f, 'b) INA_226" where
  "getPowerData F T this =
     (let cmd = [m_power_register this, 0x00];
          (w, bus1) = i2c_write T (i2c this) (m_sensor_address this) cmd 1
      in case w of
           Inl e \<Rightarrow> (Inl e, this\<lparr>i2c := bus1\<rparr>)
         | Inr _ \<Rightarrow>
             (let (r, bus2) = i2c_read T bus1 (m_sensor_address this) 2 False
              in case r of
                   Inl e \<Rightarrow> (Inl e, this\<lparr>i2c := bus2\<rparr>)
                 | Inr (_, data) \<Rightarrow>
                     (let cmd = store_received cmd 2 data;
                          power_data = (push_bit 8 (ucast (cmd ! 1)) OR ucast (cmd ! 0) :: u_int16_t)
                      in (Inr (fmul F (fof_int F (uint power_data)) (INA_226_POWER_REGISTER_LSB F)),
                          this\<lparr>i2c := bus2\<rparr>))))"

definition getAlertLimit ::
  "('b, 'e) I2C \<Rightarrow> ('f, 'b) INA_226 \<Rightarrow> ('e + u_int16_t) \<times> ('f, 'b) INA_226" where
  "getAlertLimit T this =
     (let cmd = [m_alert_limit_register this, 0x00];
          (w, bus1) = i2c_write T (i2c this) (m_sensor_address this) cmd 1
      in case w of
           Inl e \<Rightarrow> (Inl e, this\<lparr>i2c := bus1\<rparr>)
         | Inr _ \<Rightarrow>
             (let (r, bus2) = i2c_read T bus1 (m_sensor_address this) 2 False
              in case r of
                   Inl e \<Rightarrow> (Inl e, this\<lparr>i2c := bus2\<rparr>)
                 | Inr (_, data) \<Rightarrow>
                     (let cmd = store_received cmd 2 data;
                          alert = (push_bit 8 (ucast (cmd ! 1)) OR ucast (cmd ! 0) :: u_int16_t)
                      in (Inr alert, this\<lparr>i2c := bus2\<rparr>))))"

subsection \<open>The register writes\<close>

text \<open>
  Each builds \<^verbatim>\<open>cmd[3]\<close>, sends it in one write and executes \<^verbatim>\<open>return 0\<close>. The mode
  fields are promoted to \<^verbatim>\<open>int\<close> before the shift and the result is narrowed to the
  16-bit \<^verbatim>\<open>dataByte\<close>: the shift of the widened field, modulo 65536.
\<close>

definition configureSensor ::
  "('b, 'e) I2C \<Rightarrow> ('f, 'b) INA_226 \<Rightarrow> SensorModes \<Rightarrow> ('e + int) \<times> ('f, 'b) INA_226" where
  "configureSensor T this configuration_bits =
     (let cmd = [m_config_register this, 0x00, 0x00];
          dataByte = (0x00 :: u_int16_t);
          dataByte = dataByte OR ucast (operation_mode configuration_bits);
          dataByte = dataByte OR push_bit 3 (ucast (shunt_voltage_conversion_setting configuration_bits));
          dataByte = dataByte OR push_bit 6 (ucast (bus_voltage_conversion_setting configuration_bits));
          dataByte = dataByte OR push_bit 9 (ucast (average_mode_setting configuration_bits));
          dataByte = dataByte OR push_bit 15 (ucast (reset_registers configuration_bits));
          cmd = cmd[1 := ucast (dataByte AND 0xFF)];
          cmd = cmd[2 := ucast (drop_bit 8 dataByte AND 0xFF)];
          (w, bus1) = i2c_write T (i2c this) (m_sensor_address this) cmd 3
      in case w of
           Inl e \<Rightarrow> (Inl e, this\<lparr>i2c := bus1\<rparr>)
         | Inr _ \<Rightarrow> (Inr 0, this\<lparr>i2c := bus1\<rparr>))"

definition calibrateSensor ::
  "'f float_ops \<Rightarrow> ('b, 'e) I2C \<Rightarrow> ('f, 'b) INA_226 \<Rightarrow> ('e + int) \<times> ('f, 'b) INA_226" where
  "calibrateSensor F T this =
     (let cal = fdiv F (INA_226_CALIBRATION_REGISTER_CONSTANT F)
                  (fmul F (m_current_lsb this) (m_shunt_resistance this));
          cmd = [m_calibration_register this, 0x00, 0x00];
          cmd = cmd[1 := word_of_int (fto_int F cal AND 0xFF)];
          cmd = cmd[2 := word_of_int (drop_bit 8 (fto_int F cal) AND 0xFF)];
          (w, bus1) = i2c_write T (i2c this) (m_sensor_address this) cmd 3
      in case w of
           Inl e \<Rightarrow> (Inl e, this\<lparr>i2c := bus1\<rparr>)
         | Inr _ \<Rightarrow> (Inr 0, this\<lparr>i2c := bus1\<rparr>))"

definition setMaskEnableRegister ::
  "('b, 'e) I2C \<Rightarrow> ('f, 'b) INA_226 \<Rightarrow> u_int16_t \<Rightarrow> ('e + int) \<times> ('f, 'b) INA_226" where
  "setMaskEnableRegister T this bits_to_set =
     (let cmd = [m_mask_enable_register this, 0x00, 0x00];
          cmd = cmd[1 := ucast (bits_to_set AND 0xFF)];
          cmd = cmd[2 := ucast (drop_bit 8 bits_to_set AND 0xFF)];
          (w, bus1) = i2c_write T (i2c this) (m_sensor_address this) cmd 3
      in case w of
           Inl e \<Rightarrow> (Inl e, this\<lparr>i2c := bus1\<rparr>)
         | Inr _ \<Rightarrow> (Inr 0, this\<lparr>i2c := bus1\<rparr>))"

definition setAlertLimit ::
  "('b, 'e) I2C \<Rightarrow> ('f, 'b) INA_226 \<Rightarrow> u_int16_t \<Rightarrow> ('e + int) \<times> ('f, 'b) INA_226" where
  "setAlertLimit T this alert_limit =
     (let cmd = [m_alert_limit_register this, 0x00, 0x00];
          cmd = cmd[1 := ucast (alert_limit AND 0xFF)];
          cmd = cmd[2 := ucast (drop_bit 8 alert_limit AND 0xFF)];
          (w, bus1) = i2c_write T (i2c this) (m_sensor_address this) cmd 3
      in case w of
           Inl e \<Rightarrow> (Inl e, this\<lparr>i2c := bus1\<rparr>)
         | Inr _ \<Rightarrow> (Inr 0, this\<lparr>i2c := bus1\<rparr>))"

subsection \<open>Three transports to run the driver on\<close>

text \<open>What a transport may raise (section 6 of the specification).\<close>

datatype bus_failure = NACK | Timeout | ArbitrationLoss

text \<open>
  Modelled from the spec: the mock register store of section 8, a bus that stores the
  bytes written after a register address and returns them on a read. A write of one
  byte only moves the register pointer. It never fails.
\<close>

record mock_bus =
  pointer :: u_int8_t
  regs :: "u_int8_t \<Rightarrow> u_int8_t list"

definition mock_write ::
  "mock_bus \<Rightarrow> u_int8_t \<Rightarrow> u_int8_t list \<Rightarrow> nat \<Rightarrow> (bus_failure + int) \<times> mock_bus" where
  "mock_write b address buffer len =
     (case take len buffer of
        [] \<Rightarrow> (Inr 0, b)
      | r # payload \<Rightarrow>
          (Inr 0, if payload = [] then b\<lparr>pointer := r\<rparr>
                  else b\<lparr>pointer := r, regs := (regs b)(r := payload)\<rparr>))"

definition mock_read ::
  "mock_bus \<Rightarrow> u_int8_t \<Rightarrow> nat \<Rightarrow> bool \<Rightarrow> (bus_failure + int \<times> u_int8_t list) \<times> mock_bus" where
  "mock_read b address len repeated = (Inr (0, take len (regs b (pointer b))), b)"

definition mock_i2c :: "(mock_bus, bus_failure) I2C" where
  "mock_i2c =
     \<lparr>i2c_init = (\<lambda>sda scl. \<lparr>pointer = 0, regs = (\<lambda>r. [0, 0])\<rparr>),
      i2c_write = mock_write,
      i2c_read = mock_read\<rparr>"

text \<open>
  A bus on which no device answers: every transfer returns the status 1 (not
  acknowledged) and a read delivers no byte. The state counts the transfers.
\<close>

definition nack_i2c :: "(nat, bus_failure) I2C" where
  "nack_i2c =
     \<lparr>i2c_init = (\<lambda>sda scl. 0),
      i2c_write = (\<lambda>b address buffer len. (Inr 1, Suc b)),
      i2c_read = (\<lambda>b address len repeated. (Inr (1, []), Suc b))\<rparr>"

text \<open>
  A bus on which every other transfer times out, the first one included: the
  transport raises. The state counts the transfers, so a second attempt right after
  a failure would go through.
\<close>

definition flaky_i2c :: "(nat, bus_failure) I2C" where
  "flaky_i2c =
     \<lparr>i2c_init = (\<lambda>sda scl. 0),
      i2c_write = (\<lambda>b address buffer len.
         if even b then (Inl Timeout, Suc b) else (Inr 0, Suc b)),
      i2c_read = (\<lambda>b address len repeated.
         if even b then (Inl Timeout, Suc b) else (Inr (0, replicate len 0), Suc b))\<rparr>"

subsection \<open>What a register read receives\<close>

text \<open>
  \<open>receives T this reg data\<close>: on the object \<open>this\<close>, the one-byte write of the
  register address \<open>reg\<close> returns, the two-byte read after it returns, and the bytes
  that arrive are \<open>data\<close>, in this order.
\<close>

definition receives :: "('b, 'e) I2C \<Rightarrow> ('f, 'b) INA_226 \<Rightarrow> u_int8_t \<Rightarrow> u_int8_t list \<Rightarrow> bool" where
  "receives T this reg data =
     (case i2c_write T (i2c this) (m_sensor_address this) [reg, 0x00] 1 of
        (Inl e, bus1) \<Rightarrow> False
      | (Inr s, bus1) \<Rightarrow>
          (case i2c_read T bus1 (m_sensor_address this) 2 False of
             (Inl e, bus2) \<Rightarrow> False
           | (Inr (s', d), bus2) \<Rightarrow> d = data))"

subsection \<open>Concrete objects\<close>

text \<open>
  The configuration of the specification's examples (address \<open>0x40\<close>, 1 A, 2 milliohm),
  a register store in which every register holds the bytes \<open>0x34, 0x12\<close>, one in
  which every register holds \<open>0xFF, 0xFF\<close>, and the driver constructed on each of
  the three transports. \<open>bench32\<close> is the driver constructed in binary32 arithmetic
  from the same configuration, its two \<^verbatim>\<open>float\<close> fields being literals, on the second
  register store.
\<close>

definition bench_config :: "rat ComponentConfig" where
  "bench_config =
     \<lparr>SDA_pinname = 0, SCL_pinname = 1, sensor_address = 0x40,
      shunt_resistance = 2 / 1000, max_expected_current = 1\<rparr>"

definition loaded :: mock_bus where
  "loaded = \<lparr>pointer = 0, regs = (\<lambda>r. [0x34, 0x12])\<rparr>"

definition saturated :: mock_bus where
  "saturated = \<lparr>pointer = 0, regs = (\<lambda>r. [0xFF, 0xFF])\<rparr>"

definition bench :: "(rat, mock_bus) INA_226" where
  "bench = (INA_226 exact_arith mock_i2c bench_config)\<lparr>i2c := loaded\<rparr>"

definition bench32_config :: "rat ComponentConfig" where
  "bench32_config =
     \<lparr>SDA_pinname = 0, SCL_pinname = 1, sensor_address = 0x40,
      shunt_resistance = flit binary32_arith (2 / 1000),
      max_expected_current = flit binary32_arith 1\<rparr>"

definition bench32 :: "(rat, mock_bus) INA_226" where
  "bench32 = (INA_226 binary32_arith mock_i2c bench32_config)\<lparr>i2c := saturated\<rparr>"

definition silent :: "(rat, nat) INA_226" where
  "silent = INA_226 exact_arith nack_i2c bench_config"

definition flaky :: "nat \<Rightarrow> (rat, nat) INA_226" where
  "flaky n = (INA_226 exact_arith flaky_i2c bench_config)\<lparr>i2c := n\<rparr>"

subsection \<open>Sequences of calls\<close>

text \<open>A client of the driver calls its methods one after the other on the same object.\<close>

datatype call =
  GetCurrentData
| GetVoltageData
| GetPowerData
| ConfigureSensor SensorModes
| CalibrateSensor
| SetMaskEnableRegister u_int16_t
| GetAlertLimit
| SetAlertLimit u_int16_t

fun invoke :: "'f float_ops \<Rightarrow> ('b, 'e) I2C \<Rightarrow> call \<Rightarrow> ('f, 'b) INA_226 \<Rightarrow> ('f, 'b) INA_226" where
  "invoke F T GetCurrentData this = snd (getCurrentData F T this)"
| "invoke F T GetVoltageData this = snd (getVoltageData F T this)"
| "invoke F T GetPowerData this = snd (getPowerData F T this)"
| "invoke F T (ConfigureSensor m) this = snd (configureSensor T this m)"
| "invoke F T CalibrateSensor this = snd (calibrateSensor F T this)"
| "invoke F T (SetMaskEnableRegister v) this = snd (setMaskEnableRegister T this v)"
| "invoke F T GetAlertLimit this = snd (getAlertLimit T this)"
| "invoke F T (SetAlertLimit v) this = snd (setAlertLimit T this v)"

fun run :: "'f float_ops \<Rightarrow> ('b, 'e) I2C \<Rightarrow> call list \<Rightarrow> ('f, 'b) INA_226 \<Rightarrow> ('f, 'b) INA_226" where
  "run F T [] this = this"
| "run F T (c # cs) this = run F T cs (invoke F T c this)"

definition register_map ::
  "('f, 'b) INA_226 \<Rightarrow> u_int8_t \<times> u_int8_t \<times> u_int8_t \<times> u_int8_t \<times> u_int8_t \<times> u_int8_t \<times> u_int8_t" where
  "register_map this =
     (m_config_register this, m_voltage_register this, m_power_register this,
      m_current_register this, m_calibration_register this, m_mask_enable_register this,
      m_alert_limit_register this)"

section \<open>Bytes and words\<close>

text \<open>A buffer of two bytes that receives two bytes holds exactly these.\<close>

lemma store_received_pair: "store_received [r, z] 2 [b0, b1] = [b0, b1]"
  by (simp add: store_received_def)

lemma store_received_length: "length (store_received buf len data) = length buf"
  by (simp add: store_received_def Let_def)

text \<open>
  \<^verbatim>\<open>cmd[1] << 8 | cmd[0]\<close> as a number: the two bytes do not overlap, so the
  disjunction is a sum, and the sum fits sixteen bits.
\<close>

lemma uint_reassemble:
  "uint (push_bit 8 (ucast (b1 :: u_int8_t)) OR ucast (b0 :: u_int8_t) :: u_int16_t)
     = 256 * uint b1 + uint b0"
proof -
  have disjoint: "(push_bit 8 (ucast b1) OR ucast b0 :: u_int16_t) = push_bit 8 (ucast b1) + ucast b0"
    by (rule disjunctive_add_eq_or [symmetric])
       (auto simp: bit_eq_iff bit_simps dest: bit_imp_le_length)
  have lo: "uint b0 < 256"
    using uint_bounded [of b0] by simp
  have hi: "uint b1 < 256"
    using uint_bounded [of b1] by simp
  have "uint (push_bit 8 (ucast b1) + ucast b0 :: u_int16_t) = (256 * uint b1 + uint b0) mod 65536"
    by (simp add: uint_word_ariths push_bit_eq_mult uint_up_ucast is_up mod_simps mult.commute)
  also have "\<dots> = 256 * uint b1 + uint b0"
    using lo hi by simp
  finally show ?thesis
    using disjoint by simp
qed

text \<open>Splitting a 16-bit word into its two bytes and reassembling them gives the word back.\<close>

lemma split_reassemble:
  "push_bit 8 (ucast (ucast (drop_bit 8 v) :: u_int8_t)) OR ucast (ucast v :: u_int8_t)
     = (v :: u_int16_t)"
  by (rule bit_word_eqI) (auto simp: bit_simps)

lemma mask_0xFF: "(0xFF :: u_int16_t) = mask 8"
  by (simp add: mask_eq_exp_minus_1)

text \<open>The masks with \<^verbatim>\<open>0xFF\<close> are absorbed by the narrowing to a byte.\<close>

lemma low_byte_mask: "(ucast ((v :: u_int16_t) AND 0xFF) :: u_int8_t) = ucast v"
  unfolding mask_0xFF by (rule bit_word_eqI) (auto simp: bit_simps)

lemma high_byte_mask:
  "(ucast (drop_bit 8 (v :: u_int16_t) AND 0xFF) :: u_int8_t) = ucast (drop_bit 8 v)"
  unfolding mask_0xFF by (rule bit_word_eqI) (auto simp: bit_simps)

lemma bytes_0x1234:
  "[ucast (0x1234 :: u_int16_t), ucast (drop_bit 8 (0x1234 :: u_int16_t))] = [0x34, 0x12 :: u_int8_t]"
  by code_simp

section \<open>What the accessors return for two received bytes\<close>

lemma getCurrentData_receives:
  "receives T this (m_current_register this) [b0, b1] \<Longrightarrow>
   fst (getCurrentData F T this) =
     Inr (fmul F (fof_int F (uint (push_bit 8 (ucast b1) OR ucast b0 :: u_int16_t)))
            (INA_226_CURRENT_REGISTER_LSB F))"
  by (auto simp: receives_def getCurrentData_def Let_def store_received_pair
           split: prod.splits sum.splits)

lemma getVoltageData_receives:
  "receives T this (m_voltage_register this) [b0, b1] \<Longrightarrow>
   fst (getVoltageData F T this) =
     Inr (fmul F (fof_int F (uint (push_bit 8 (ucast b1) OR ucast b0 :: u_int16_t)))
            (INA_226_VOLTAGE_REGISTER_LSB F))"
  by (auto simp: receives_def getVoltageData_def Let_def store_received_pair
           split: prod.splits sum.splits)

lemma getPowerData_receives:
  "receives T this (m_power_register this) [b0, b1] \<Longrightarrow>
   fst (getPowerData F T this) =
     Inr (fmul F (fof_int F (uint (push_bit 8 (ucast b1) OR ucast b0 :: u_int16_t)))
            (INA_226_POWER_REGISTER_LSB F))"
  by (auto simp: receives_def getPowerData_def Let_def store_received_pair
           split: prod.splits sum.splits)

lemma getAlertLimit_receives:
  "receives T this (m_alert_limit_register this) [b0, b1] \<Longrightarrow>
   fst (getAlertLimit T this) = Inr (push_bit 8 (ucast b1) OR ucast b0)"
  by (auto simp: receives_def getAlertLimit_def Let_def store_received_pair
           split: prod.splits sum.splits)

lemma exact_arith_simps:
  "flit exact_arith q = q" "fof_int exact_arith i = of_int i"
  "fmul exact_arith a b = a * b" "fdiv exact_arith a b = a / b"
  "fpow exact_arith 2 15 = 32768"
  by (simp_all add: exact_arith_def)

lemmas LSB_defs = INA_226_CURRENT_REGISTER_LSB_def INA_226_VOLTAGE_REGISTER_LSB_def
  INA_226_POWER_REGISTER_LSB_def

lemma bench_simps:
  "i2c bench = loaded" "m_sensor_address bench = 0x80"
  "register_map bench = (0x00, 0x01, 0x03, 0x04, 0x05, 0x06, 0x07)"
  by (simp_all add: bench_def bench_config_def INA_226_def register_map_def)

lemma bench_receives: "receives mock_i2c bench reg [0x34, 0x12]"
  by (simp add: receives_def bench_simps mock_i2c_def mock_write_def mock_read_def loaded_def)

section \<open>Scaling of the readings\<close>

text \<open>
  Claim C1. Whenever the bus delivers a raw 16-bit register value \<open>v\<close> (low byte first),
  \<^verbatim>\<open>getCurrentData\<close> returns \<open>v\<close> times the constant 0.001, \<^verbatim>\<open>getVoltageData\<close>
  \<open>v\<close> times 0.00125 and \<^verbatim>\<open>getPowerData\<close> \<open>v\<close> times the power constant, which is
  25 times the current constant. This holds for the product and the constants of any
  float arithmetic; in exact arithmetic the three results are \<open>v \<times> 0.001\<close>,
  \<open>v \<times> 0.00125\<close> and \<open>v \<times> 0.025\<close>.
\<close>

theorem scaled_readings:
  "(receives T this (m_current_register this) [ucast (v :: u_int16_t), ucast (drop_bit 8 v)] \<longrightarrow>
      fst (getCurrentData F T this) = Inr (fmul F (fof_int F (uint v)) (flit F (1 / 1000))))
 \<and> (receives T this (m_voltage_register this) [ucast v, ucast (drop_bit 8 v)] \<longrightarrow>
      fst (getVoltageData F T this) = Inr (fmul F (fof_int F (uint v)) (flit F (125 / 100000))))
 \<and> (receives T this (m_power_register this) [ucast v, ucast (drop_bit 8 v)] \<longrightarrow>
      fst (getPowerData F T this) =
        Inr (fmul F (fof_int F (uint v)) (fmul F (fof_int F 25) (flit F (1 / 1000)))))
 \<and> (receives T x (m_current_register x) [ucast v, ucast (drop_bit 8 v)] \<longrightarrow>
      fst (getCurrentData exact_arith T x) = Inr (of_int (uint v) * (1 / 1000)))
 \<and> (receives T x (m_voltage_register x) [ucast v, ucast (drop_bit 8 v)] \<longrightarrow>
      fst (getVoltageData exact_arith T x) = Inr (of_int (uint v) * (125 / 100000)))
 \<and> (receives T x (m_power_register x) [ucast v, ucast (drop_bit 8 v)] \<longrightarrow>
      fst (getPowerData exact_arith T x) = Inr (of_int (uint v) * (25 / 1000)))
 \<and> INA_226_POWER_REGISTER_LSB F = fmul F (fof_int F 25) (INA_226_CURRENT_REGISTER_LSB F)
 \<and> INA_226_POWER_REGISTER_LSB exact_arith = 25 * INA_226_CURRENT_REGISTER_LSB exact_arith"
  by (simp add: getCurrentData_receives getVoltageData_receives getPowerData_receives
        split_reassemble LSB_defs exact_arith_simps)

text \<open>On the register store that holds \<open>0x1234\<close>: 4.66 A, 5.825 V and 116.5 W.\<close>

theorem scaled_readings_witness:
  "receives mock_i2c bench (m_current_register bench) [0x34, 0x12]
 \<and> receives mock_i2c bench (m_voltage_register bench) [0x34, 0x12]
 \<and> receives mock_i2c bench (m_power_register bench) [0x34, 0x12]
 \<and> fst (getCurrentData exact_arith mock_i2c bench) = Inr (4660 / 1000)
 \<and> fst (getVoltageData exact_arith mock_i2c bench) = Inr (5825 / 1000)
 \<and> fst (getPowerData exact_arith mock_i2c bench) = Inr (116500 / 1000)"
  using scaled_readings [of mock_i2c bench "0x1234" exact_arith bench] bench_receives
  unfolding bytes_0x1234 by (simp add: exact_arith_simps)

section \<open>Byte order of a register read\<close>

text \<open>
  Claim C2. In \<^verbatim>\<open>getCurrentData\<close>, \<^verbatim>\<open>getVoltageData\<close>, \<^verbatim>\<open>getPowerData\<close> and
  \<^verbatim>\<open>getAlertLimit\<close>, two bytes \<open>b0, b1\<close> received in this order are reassembled into
  the unsigned 16-bit value \<open>256 \<times> b1 + b0\<close>: the second byte is the high byte, the
  first the low byte. The bytes \<open>0x34, 0x12\<close> give \<open>0x1234\<close>, not \<open>0x3412\<close>.
\<close>

theorem byte_reassembly:
  "(receives T this (m_current_register this) [b0, b1] \<longrightarrow>
      fst (getCurrentData F T this) =
        Inr (fmul F (fof_int F (256 * uint b1 + uint b0)) (INA_226_CURRENT_REGISTER_LSB F)))
 \<and> (receives T this (m_voltage_register this) [b0, b1] \<longrightarrow>
      fst (getVoltageData F T this) =
        Inr (fmul F (fof_int F (256 * uint b1 + uint b0)) (INA_226_VOLTAGE_REGISTER_LSB F)))
 \<and> (receives T this (m_power_register this) [b0, b1] \<longrightarrow>
      fst (getPowerData F T this) =
        Inr (fmul F (fof_int F (256 * uint b1 + uint b0)) (INA_226_POWER_REGISTER_LSB F)))
 \<and> (receives T this (m_alert_limit_register this) [b0, b1] \<longrightarrow>
      (\<exists>alert. fst (getAlertLimit T this) = Inr alert \<and> uint alert = 256 * uint b1 + uint b0))
 \<and> (receives T this (m_alert_limit_register this) [0x34, 0x12] \<longrightarrow>
      fst (getAlertLimit T this) = Inr 0x1234 \<and> fst (getAlertLimit T this) \<noteq> Inr 0x3412)"
proof -
  have "(push_bit 8 (ucast (0x12 :: u_int8_t)) OR ucast (0x34 :: u_int8_t) :: u_int16_t) = 0x1234"
    by code_simp
  then show ?thesis
    by (simp add: getCurrentData_receives getVoltageData_receives getPowerData_receives
          getAlertLimit_receives uint_reassemble)
qed

text \<open>On the register store that holds \<open>0x34, 0x12\<close> in every register.\<close>

theorem byte_reassembly_witness:
  "receives mock_i2c bench (m_current_register bench) [0x34, 0x12]
 \<and> receives mock_i2c bench (m_voltage_register bench) [0x34, 0x12]
 \<and> receives mock_i2c bench (m_power_register bench) [0x34, 0x12]
 \<and> receives mock_i2c bench (m_alert_limit_register bench) [0x34, 0x12]
 \<and> fst (getCurrentData exact_arith mock_i2c bench) = Inr (of_int (256 * 0x12 + 0x34) * (1 / 1000))
 \<and> fst (getVoltageData exact_arith mock_i2c bench) = Inr (of_int (256 * 0x12 + 0x34) * (125 / 100000))
 \<and> fst (getPowerData exact_arith mock_i2c bench) = Inr (of_int (256 * 0x12 + 0x34) * (25 / 1000))
 \<and> fst (getAlertLimit mock_i2c bench) = Inr 0x1234"
  using byte_reassembly [of mock_i2c bench "0x34" "0x12" exact_arith] bench_receives
  by (simp add: exact_arith_simps LSB_defs)

section \<open>The configuration word\<close>

lemma bench_write3:
  "i2c_write mock_i2c loaded a [r, lo, hi] 3 = (Inr 0, loaded\<lparr>pointer := r, regs := (regs loaded)(r := [lo, hi])\<rparr>)"
  by (simp add: mock_i2c_def mock_write_def)

lemma configureSensor_unfold:
  "configureSensor T this m =
     (let word = (ucast (operation_mode m)
                    OR push_bit 3 (ucast (shunt_voltage_conversion_setting m))
                    OR push_bit 6 (ucast (bus_voltage_conversion_setting m))
                    OR push_bit 9 (ucast (average_mode_setting m))
                    OR push_bit 15 (ucast (reset_registers m)) :: u_int16_t);
          (w, bus1) = i2c_write T (i2c this) (m_sensor_address this)
                        [m_config_register this, ucast word, ucast (drop_bit 8 word)] 3
      in (case w of Inl e \<Rightarrow> Inl e | Inr s \<Rightarrow> Inr 0, this\<lparr>i2c := bus1\<rparr>))"
  by (simp add: configureSensor_def Let_def low_byte_mask high_byte_mask or.assoc
        split: prod.splits sum.splits)

text \<open>
  Claim C3. For every \<^verbatim>\<open>SensorModes\<close> value, \<^verbatim>\<open>configureSensor\<close> sends the register
  address followed by the low and the high byte of the word
  \<open>operation_mode | shunt << 3 | bus << 6 | average << 9 | reset << 15\<close>; no field is
  masked or checked. Operation mode \<open>0b111\<close> alone gives the bytes \<open>0x07, 0x00\<close>, the
  reset flag alone \<open>0x00, 0x80\<close>; a shunt setting of 8 spills into the bus field and
  gives the same bytes as a bus setting of 1.
\<close>

theorem configuration_word:
  "configureSensor T this m =
     (let word = (ucast (operation_mode m)
                    OR push_bit 3 (ucast (shunt_voltage_conversion_setting m))
                    OR push_bit 6 (ucast (bus_voltage_conversion_setting m))
                    OR push_bit 9 (ucast (average_mode_setting m))
                    OR push_bit 15 (ucast (reset_registers m)) :: u_int16_t);
          (w, bus1) = i2c_write T (i2c this) (m_sensor_address this)
                        [m_config_register this, ucast word, ucast (drop_bit 8 word)] 3
      in (case w of Inl e \<Rightarrow> Inl e | Inr s \<Rightarrow> Inr 0, this\<lparr>i2c := bus1\<rparr>))
 \<and> regs (i2c (snd (configureSensor mock_i2c bench
        \<lparr>operation_mode = 0b111, shunt_voltage_conversion_setting = 0,
         bus_voltage_conversion_setting = 0, average_mode_setting = 0, reset_registers = 0\<rparr>)))
      (m_config_register bench) = [0x07, 0x00]
 \<and> regs (i2c (snd (configureSensor mock_i2c bench
        \<lparr>operation_mode = 0, shunt_voltage_conversion_setting = 0,
         bus_voltage_conversion_setting = 0, average_mode_setting = 0, reset_registers = 1\<rparr>)))
      (m_config_register bench) = [0x00, 0x80]
 \<and> regs (i2c (snd (configureSensor mock_i2c bench
        \<lparr>operation_mode = 0, shunt_voltage_conversion_setting = 8,
         bus_voltage_conversion_setting = 0, average_mode_setting = 0, reset_registers = 0\<rparr>)))
      (m_config_register bench) = [0x40, 0x00]
 \<and> regs (i2c (snd (configureSensor mock_i2c bench
        \<lparr>operation_mode = 0, shunt_voltage_conversion_setting = 0,
         bus_voltage_conversion_setting = 1, average_mode_setting = 0, reset_registers = 0\<rparr>)))
      (m_config_register bench) = [0x40, 0x00]"
proof -
  have reg: "m_config_register bench = 0"
    using bench_simps(3) by (simp add: register_map_def)
  have e1: "[ucast (0x7 :: u_int16_t), ucast (drop_bit 8 (0x7 :: u_int16_t))] = [0x07, 0x00 :: u_int8_t]"
    by code_simp
  have e2: "[ucast (push_bit 15 (1 :: u_int16_t)), ucast (drop_bit 8 (push_bit 15 (1 :: u_int16_t)))] = [0x00, 0x80 :: u_int8_t]"
    by code_simp
  have e3: "[ucast (push_bit 3 (8 :: u_int16_t)), ucast (drop_bit 8 (push_bit 3 (8 :: u_int16_t)))] = [0x40, 0x00 :: u_int8_t]"
    by code_simp
  have e4: "[ucast (push_bit 6 (1 :: u_int16_t)), ucast (drop_bit 8 (push_bit 6 (1 :: u_int16_t)))] = [0x40, 0x00 :: u_int8_t]"
    by code_simp
  show ?thesis
    apply (intro conjI)
        apply (rule configureSensor_unfold)
       apply (simp add: configureSensor_unfold bench_simps bench_write3 reg e1)
      apply (simp add: configureSensor_unfold bench_simps bench_write3 reg e2)
     apply (simp add: configureSensor_unfold bench_simps bench_write3 reg e3)
    apply (simp add: configureSensor_unfold bench_simps bench_write3 reg e4)
    done
qed

section \<open>Rounding to a binary format\<close>

text \<open>Rounding to the nearest integer preserves the order and fixes the integers.\<close>

lemma round_half_even_cases:
  "round_half_even x = \<lfloor>x\<rfloor> \<and> x - of_int \<lfloor>x\<rfloor> \<le> 1 / 2
 \<or> round_half_even x = \<lfloor>x\<rfloor> + 1 \<and> 1 / 2 \<le> x - of_int \<lfloor>x\<rfloor>"
  by (auto simp: round_half_even_def Let_def)

lemma round_half_even_of_int: "round_half_even (of_int m) = m"
  by (simp add: round_half_even_def)

lemma round_half_even_eqI:
  assumes "\<bar>x - of_int m\<bar> < 1 / 2"
  shows "round_half_even x = m"
proof -
  consider "of_int m \<le> x" "x < of_int m + 1 / 2" | "of_int m - 1 / 2 < x" "x < of_int m"
    using assms by linarith
  then show ?thesis
  proof cases
    case 1
    then have "\<lfloor>x\<rfloor> = m" by (simp add: floor_eq_iff)
    with 1 show ?thesis by (simp add: round_half_even_def)
  next
    case 2
    then have f: "\<lfloor>x\<rfloor> = m - 1" by (simp add: floor_eq_iff)
    with 2 have "1 / 2 < x - of_int \<lfloor>x\<rfloor>" by simp
    with f show ?thesis by (simp add: round_half_even_def Let_def)
  qed
qed

lemma round_half_even_mono:
  assumes "x \<le> y"
  shows "round_half_even x \<le> round_half_even y"
proof (cases "\<lfloor>x\<rfloor> < \<lfloor>y\<rfloor>")
  case True
  have "round_half_even x \<le> \<lfloor>x\<rfloor> + 1"
    using round_half_even_cases [of x] by linarith
  also have "\<dots> \<le> \<lfloor>y\<rfloor>"
    using True by simp
  also have "\<dots> \<le> round_half_even y"
    using round_half_even_cases [of y] by linarith
  finally show ?thesis .
next
  case False
  with assms have same: "\<lfloor>x\<rfloor> = \<lfloor>y\<rfloor>"
    using floor_mono [of x y] by linarith
  then have "x - of_int \<lfloor>x\<rfloor> \<le> y - of_int \<lfloor>y\<rfloor>"
    using assms by simp
  with same show ?thesis
    by (auto simp: round_half_even_def Let_def)
qed

lemma round_half_even_ge: "of_int m \<le> x \<Longrightarrow> m \<le> round_half_even x"
  using round_half_even_mono [of "of_int m" x] by (simp add: round_half_even_of_int)

lemma round_half_even_le: "x \<le> of_int m \<Longrightarrow> round_half_even x \<le> m"
  using round_half_even_mono [of x "of_int m"] by (simp add: round_half_even_of_int)

text \<open>
  The number of bits dropped: a magnitude \<open>N\<close> lies below \<open>2\<^sup>p\<^sup>+\<^sup>s\<close>, and when bits are
  dropped it is at least \<open>2\<^sup>p\<^sup>+\<^sup>s\<^sup>-\<^sup>1\<close>. The rounded magnitude stays between the same
  two powers, which makes rounding monotone across the change of exponent.
\<close>

lemma shift_upper:
  fixes N :: rat
  assumes "0 \<le> N"
  shows "N < 2 ^ (p + nat (bitlen \<lfloor>N\<rfloor> - int p))"
proof -
  define s where "s = nat (bitlen \<lfloor>N\<rfloor> - int p)"
  have "bitlen \<lfloor>N\<rfloor> \<le> int (p + s)"
    by (simp add: s_def)
  then have "\<lfloor>N\<rfloor> < 2 ^ nat (int (p + s))"
    by (simp only: bitlen_le_iff_power)
  then have "\<lfloor>N\<rfloor> < 2 ^ (p + s)"
    by (simp only: nat_int)
  then have "\<lfloor>N\<rfloor> + 1 \<le> 2 ^ (p + s)"
    by simp
  then have "(of_int (\<lfloor>N\<rfloor> + 1) :: rat) \<le> of_int (2 ^ (p + s))"
    by (simp only: of_int_le_iff)
  moreover have "N < of_int (\<lfloor>N\<rfloor> + 1)"
    using floor_correct [of N] by simp
  ultimately have "N < 2 ^ (p + s)"
    by simp
  then show ?thesis
    by (simp only: s_def)
qed

lemma shift_lower:
  fixes N :: rat
  assumes "0 < nat (bitlen \<lfloor>N\<rfloor> - int p)"
  shows "2 ^ (p + nat (bitlen \<lfloor>N\<rfloor> - int p) - 1) \<le> N"
proof -
  define s where "s = nat (bitlen \<lfloor>N\<rfloor> - int p)"
  from assms have "0 < s"
    by (simp only: s_def)
  have "int (p + s) \<le> bitlen \<lfloor>N\<rfloor>"
    using assms by (simp add: s_def)
  then have "int (p + s) \<le> 0 \<or> 2 ^ (nat (int (p + s)) - 1) \<le> \<lfloor>N\<rfloor>"
    by (simp only: bitlen_ge_iff_power)
  with \<open>0 < s\<close> have "2 ^ (nat (int (p + s)) - 1) \<le> \<lfloor>N\<rfloor>"
    by simp
  then have "(2 :: int) ^ (p + s - 1) \<le> \<lfloor>N\<rfloor>"
    by (simp only: nat_int)
  then have "(of_int (2 ^ (p + s - 1)) :: rat) \<le> of_int \<lfloor>N\<rfloor>"
    by (simp only: of_int_le_iff)
  also have "\<dots> \<le> N"
    by simp
  finally have "2 ^ (p + s - 1) \<le> N"
    by simp
  then show ?thesis
    by (simp only: s_def)
qed

lemma shift_mono:
  fixes N :: rat
  assumes "N \<le> N'"
  shows "nat (bitlen \<lfloor>N\<rfloor> - int p) \<le> nat (bitlen \<lfloor>N'\<rfloor> - int p)"
proof -
  have "\<lfloor>N\<rfloor> \<le> \<lfloor>N'\<rfloor>"
    using assms by (rule floor_mono)
  then have "bitlen \<lfloor>N\<rfloor> \<le> bitlen \<lfloor>N'\<rfloor>"
    by (simp add: bitlen_def floorlog_mono nat_mono)
  then show ?thesis
    by simp
qed

lemma magnitude_nonneg:
  assumes "0 \<le> N"
  shows "0 \<le> magnitude p N"
proof -
  have "0 \<le> N / 2 ^ nat (bitlen \<lfloor>N\<rfloor> - int p)"
    using assms by simp
  then have "0 \<le> round_half_even (N / 2 ^ nat (bitlen \<lfloor>N\<rfloor> - int p))"
    using round_half_even_ge [of 0] by simp
  then show ?thesis
    by (simp add: magnitude_def)
qed

lemma magnitude_upper:
  assumes "0 \<le> N"
  shows "magnitude p N \<le> 2 ^ (p + nat (bitlen \<lfloor>N\<rfloor> - int p))"
proof -
  let ?s = "nat (bitlen \<lfloor>N\<rfloor> - int p)"
  have "N / 2 ^ ?s \<le> 2 ^ (p + ?s) / 2 ^ ?s"
    using shift_upper [OF assms, of p] by (simp add: divide_right_mono)
  then have "N / 2 ^ ?s \<le> of_int (2 ^ p)"
    by (simp add: power_add)
  then have "round_half_even (N / 2 ^ ?s) \<le> 2 ^ p"
    by (rule round_half_even_le)
  then have "(of_int (round_half_even (N / 2 ^ ?s)) :: rat) \<le> of_int (2 ^ p)"
    by (simp only: of_int_le_iff)
  then have "of_int (round_half_even (N / 2 ^ ?s)) * 2 ^ ?s \<le> (of_int (2 ^ p) :: rat) * 2 ^ ?s"
    by (rule mult_right_mono) simp
  then show ?thesis
    by (simp add: magnitude_def power_add)
qed

lemma magnitude_lower:
  assumes "0 < nat (bitlen \<lfloor>N\<rfloor> - int p)" "0 < p"
  shows "2 ^ (p + nat (bitlen \<lfloor>N\<rfloor> - int p) - 1) \<le> magnitude p N"
proof -
  define s where "s = nat (bitlen \<lfloor>N\<rfloor> - int p)"
  have split: "p + s - 1 = (p - 1) + s"
    using assms(2) by simp
  have "2 ^ (p + s - 1) \<le> N"
    using shift_lower [OF assms(1)] by (simp only: s_def)
  then have "2 ^ (p + s - 1) / 2 ^ s \<le> N / 2 ^ s"
    by (simp add: divide_right_mono)
  moreover have "(2 :: rat) ^ (p + s - 1) / 2 ^ s = 2 ^ (p - 1)"
    by (simp only: split power_add) simp
  ultimately have "of_int (2 ^ (p - 1)) \<le> N / 2 ^ s"
    by simp
  then have "2 ^ (p - 1) \<le> round_half_even (N / 2 ^ s)"
    by (rule round_half_even_ge)
  then have "(of_int (2 ^ (p - 1)) :: rat) \<le> of_int (round_half_even (N / 2 ^ s))"
    by (simp only: of_int_le_iff)
  then have step: "(of_int (2 ^ (p - 1)) :: rat) * 2 ^ s \<le> of_int (round_half_even (N / 2 ^ s)) * 2 ^ s"
    by (rule mult_right_mono) simp
  have "(2 :: rat) ^ (p + s - 1) = of_int (2 ^ (p - 1)) * 2 ^ s"
    by (simp only: split power_add) simp
  also note step
  finally show ?thesis
    by (simp only: magnitude_def s_def)
qed

lemma magnitude_mono:
  assumes "0 \<le> N" "N \<le> N'" "0 < p"
  shows "magnitude p N \<le> magnitude p N'"
proof -
  define s where "s = nat (bitlen \<lfloor>N\<rfloor> - int p)"
  define s' where "s' = nat (bitlen \<lfloor>N'\<rfloor> - int p)"
  have le: "s \<le> s'"
    unfolding s_def s'_def using assms(2) by (rule shift_mono)
  show ?thesis
  proof (cases "s = s'")
    case True
    have "N / 2 ^ s \<le> N' / 2 ^ s"
      using assms(2) by (simp add: divide_right_mono)
    then have "round_half_even (N / 2 ^ s) \<le> round_half_even (N' / 2 ^ s)"
      by (rule round_half_even_mono)
    then have "(of_int (round_half_even (N / 2 ^ s)) :: rat) \<le> of_int (round_half_even (N' / 2 ^ s))"
      by (simp only: of_int_le_iff)
    then have "of_int (round_half_even (N / 2 ^ s)) * 2 ^ s
        \<le> (of_int (round_half_even (N' / 2 ^ s)) :: rat) * 2 ^ s"
      by (rule mult_right_mono) simp
    then have "of_int (round_half_even (N / 2 ^ s)) * 2 ^ s
        \<le> (of_int (round_half_even (N' / 2 ^ s')) :: rat) * 2 ^ s'"
      by (simp only: True)
    then show ?thesis
      by (simp only: magnitude_def s_def s'_def)
  next
    case False
    with le have less: "s < s'" by simp
    then have pos: "0 < nat (bitlen \<lfloor>N'\<rfloor> - int p)"
      by (simp only: s'_def)
    have "magnitude p N \<le> 2 ^ (p + s)"
      unfolding s_def using assms(1) by (rule magnitude_upper)
    also have "(2 :: rat) ^ (p + s) \<le> 2 ^ (p + s' - 1)"
      using less by (intro power_increasing) simp_all
    also have "\<dots> \<le> magnitude p N'"
      unfolding s'_def using pos assms(3) by (rule magnitude_lower)
    finally show ?thesis .
  qed
qed

lemma round_float_0: "round_float p k 0 = 0"
  by (simp add: round_float_def)

lemma round_float_nonneg: "0 \<le> q \<Longrightarrow> 0 \<le> round_float p k q"
proof -
  assume "0 \<le> q"
  have "0 \<le> magnitude p (\<bar>q\<bar> * 2 ^ k) / 2 ^ k"
    using magnitude_nonneg [of "\<bar>q\<bar> * 2 ^ k" p] by simp
  with \<open>0 \<le> q\<close> show ?thesis
    by (simp add: round_float_def sgn_if)
qed

lemma round_float_nonpos: "q \<le> 0 \<Longrightarrow> round_float p k q \<le> 0"
proof -
  assume "q \<le> 0"
  have "0 \<le> magnitude p (\<bar>q\<bar> * 2 ^ k) / 2 ^ k"
    using magnitude_nonneg [of "\<bar>q\<bar> * 2 ^ k" p] by simp
  with \<open>q \<le> 0\<close> show ?thesis
    by (simp add: round_float_def sgn_if)
qed

lemma round_float_mono:
  assumes "q \<le> q'" "0 < p"
  shows "round_float p k q \<le> round_float p k q'"
proof -
  consider "0 < q" | "q' < 0" | "q \<le> 0" "0 \<le> q'"
    using assms by linarith
  then show ?thesis
  proof cases
    case 1
    with assms have "0 < q'" by simp
    have "magnitude p (q * 2 ^ k) \<le> magnitude p (q' * 2 ^ k)"
      using 1 assms by (intro magnitude_mono) simp_all
    then have "magnitude p (q * 2 ^ k) / 2 ^ k \<le> magnitude p (q' * 2 ^ k) / 2 ^ k"
      by (simp add: divide_right_mono)
    with 1 \<open>0 < q'\<close> show ?thesis
      by (simp add: round_float_def)
  next
    case 2
    with assms have "q < 0" by simp
    have "0 \<le> - q' * 2 ^ k"
      using 2 by (simp add: mult_le_0_iff)
    then have "magnitude p (- q' * 2 ^ k) \<le> magnitude p (- q * 2 ^ k)"
      using assms by (intro magnitude_mono) simp_all
    then have "magnitude p (- q' * 2 ^ k) / 2 ^ k \<le> magnitude p (- q * 2 ^ k) / 2 ^ k"
      by (simp add: divide_right_mono)
    with 2 \<open>q < 0\<close> show ?thesis
      by (simp add: round_float_def)
  next
    case 3
    then show ?thesis
      using round_float_nonpos [of q p k] round_float_nonneg [of q' p k] by simp
  qed
qed

text \<open>
  A rounding is evaluated from the number of dropped bits and the integer significand:
  both are checked by comparisons of rationals.
\<close>

lemma shift_eqI:
  fixes N :: rat
  assumes "N < 2 ^ (p + s)" and "s = 0 \<or> 2 ^ (p + s - 1) \<le> N"
  shows "nat (bitlen \<lfloor>N\<rfloor> - int p) = s"
proof -
  have "of_int \<lfloor>N\<rfloor> \<le> N"
    by simp
  also note assms(1)
  finally have "(of_int \<lfloor>N\<rfloor> :: rat) < of_int (2 ^ (p + s))"
    by simp
  then have "\<lfloor>N\<rfloor> < 2 ^ (p + s)"
    by (simp only: of_int_less_iff)
  then have "\<lfloor>N\<rfloor> < 2 ^ nat (int (p + s))"
    by (simp only: nat_int)
  then have upper: "bitlen \<lfloor>N\<rfloor> \<le> int (p + s)"
    by (simp only: bitlen_le_iff_power) simp
  show ?thesis
  proof (cases "s = 0")
    case True
    with upper show ?thesis by simp
  next
    case False
    with assms(2) have "of_int (2 ^ (p + s - 1)) \<le> N"
      by simp
    then have "2 ^ (p + s - 1) \<le> \<lfloor>N\<rfloor>"
      by (simp only: le_floor_iff)
    then have "2 ^ (nat (int (p + s)) - 1) \<le> \<lfloor>N\<rfloor>"
      by (simp only: nat_int)
    then have "int (p + s) \<le> bitlen \<lfloor>N\<rfloor>"
      by (simp only: bitlen_ge_iff_power) simp
    with upper have "bitlen \<lfloor>N\<rfloor> = int (p + s)"
      by simp
    then show ?thesis
      by simp
  qed
qed

lemma round_float_eqI:
  fixes q :: rat
  assumes "0 < q"
    and "q * 2 ^ k < 2 ^ (p + s)"
    and "s = 0 \<or> 2 ^ (p + s - 1) \<le> q * 2 ^ k"
    and "\<bar>q * 2 ^ k / 2 ^ s - of_int m\<bar> < 1 / 2"
  shows "round_float p k q = of_int m * 2 ^ s / 2 ^ k"
proof -
  have s: "nat (bitlen \<lfloor>q * 2 ^ k\<rfloor> - int p) = s"
    using assms(2,3) by (rule shift_eqI)
  have m: "round_half_even (q * 2 ^ k / 2 ^ s) = m"
    using assms(4) by (rule round_half_even_eqI)
  have "magnitude p (q * 2 ^ k) = of_int m * 2 ^ s"
    by (simp only: magnitude_def s m)
  with assms(1) show ?thesis
    by (simp add: round_float_def)
qed


section \<open>The binary32 arithmetic of the driver\<close>

text \<open>
  The literals of the source as \<^verbatim>\<open>double\<close> and as \<^verbatim>\<open>float\<close>, the integers 25 and
  65535, and the products and quotients that the constants, the largest readings and
  the calibration value of the example need.
\<close>

lemma double_0_001: "binary64 (1 / 1000) = 1152921504606847 / 1152921504606846976"
  unfolding binary64_def
  by (rule round_float_eqI [where s = 1012 and m = 4611686018427388, THEN trans]) simp_all

lemma float_0_001: "binary32 (1152921504606847 / 1152921504606846976) = 8589935 / 8589934592"
  unfolding binary32_def
  by (rule round_float_eqI [where s = 116 and m = 8589935, THEN trans]) simp_all

lemma double_0_00125: "binary64 (125 / 100000) = 5764607523034235 / 4611686018427387904"
  unfolding binary64_def
  by (rule round_float_eqI [where s = 1012 and m = 5764607523034235, THEN trans]) simp_all

lemma float_0_00125: "binary32 (5764607523034235 / 4611686018427387904) = 5368709 / 4294967296"
  unfolding binary32_def
  by (rule round_float_eqI [where s = 116 and m = 10737418, THEN trans]) simp_all

lemma double_0_00512: "binary64 (512 / 100000) = 5902958103587057 / 1152921504606846976"
  unfolding binary64_def
  by (rule round_float_eqI [where s = 1014 and m = 5902958103587057, THEN trans]) simp_all

lemma float_0_00512: "binary32 (5902958103587057 / 1152921504606846976) = 2748779 / 536870912"
  unfolding binary32_def
  by (rule round_float_eqI [where s = 118 and m = 10995116, THEN trans]) simp_all






lemma float_25: "binary32 (25) = 25"
  unfolding binary32_def
  by (rule round_float_eqI [where s = 130 and m = 13107200, THEN trans]) simp_all

lemma float_65535: "binary32 (65535) = 65535"
  unfolding binary32_def
  by (rule round_float_eqI [where s = 141 and m = 16776960, THEN trans]) simp_all

lemma float_power_lsb: "binary32 (25 * (8589935 / 8589934592)) = 13421773 / 536870912"
  unfolding binary32_def
  by (rule round_float_eqI [where s = 120 and m = 13421773, THEN trans]) simp_all

lemma float_current_max: "binary32 (65535 * (8589935 / 8589934592)) = 2147451 / 32768"
  unfolding binary32_def
  by (rule round_float_eqI [where s = 132 and m = 8589804, THEN trans]) simp_all

lemma float_voltage_max: "binary32 (65535 * (5368709 / 4294967296)) = 5368627 / 65536"
  unfolding binary32_def
  by (rule round_float_eqI [where s = 132 and m = 10737254, THEN trans]) simp_all

lemma float_power_max: "binary32 (65535 * (13421773 / 536870912)) = 13107 / 8"
  unfolding binary32_def
  by (rule round_float_eqI [where s = 136 and m = 13421568, THEN trans]) simp_all




text \<open>Both arithmetics preserve the order.\<close>

lemma binary32_arith_simps:
  "flit binary32_arith q = binary32 (binary64 q)"
  "fof_int binary32_arith i = binary32 (of_int i)"
  "fmul binary32_arith a b = binary32 (a * b)"
  "fdiv binary32_arith a b = binary32 (a / b)"
  "fpow binary32_arith 2 15 = binary64 32768"
  "fto_int binary32_arith a = (if 0 \<le> a then \<lfloor>a\<rfloor> else \<lceil>a\<rceil>)"
  by (simp_all add: binary32_arith_def)

lemma binary32_mono: "a \<le> b \<Longrightarrow> binary32 a \<le> binary32 b"
  unfolding binary32_def by (rule round_float_mono) simp_all

lemma binary32_0: "binary32 0 = 0"
  by (simp add: binary32_def round_float_0)

lemma binary64_nonneg: "0 \<le> q \<Longrightarrow> 0 \<le> binary64 q"
  unfolding binary64_def by (rule round_float_nonneg)

lemma binary32_nonneg: "0 \<le> q \<Longrightarrow> 0 \<le> binary32 q"
  unfolding binary32_def by (rule round_float_nonneg)

lemma exact_arith_order_preserving: "order_preserving exact_arith"
  by (simp add: order_preserving_def exact_arith_def mult_right_mono)

lemma binary32_arith_order_preserving: "order_preserving binary32_arith"
  unfolding order_preserving_def binary32_arith_simps
proof (intro conjI allI impI)
  fix m n :: int
  assume "m \<le> n"
  then have "(of_int m :: rat) \<le> of_int n"
    by (simp only: of_int_le_iff)
  then show "binary32 (of_int m) \<le> binary32 (of_int n)"
    by (rule binary32_mono)
next
  fix a b k :: rat
  assume "a \<le> b \<and> binary32 (of_int 0) \<le> k"
  then have "a * k \<le> b * k"
    by (simp add: binary32_0 mult_right_mono)
  then show "binary32 (a * k) \<le> binary32 (b * k)"
    by (rule binary32_mono)
next
  fix k :: rat
  show "binary32 (binary32 (of_int 0) * k) = binary32 (of_int 0)"
    by (simp add: binary32_0)
next
  fix q :: rat
  assume "0 \<le> q"
  then show "binary32 (of_int 0) \<le> binary32 (binary64 q)"
    by (simp add: binary32_0 binary32_nonneg binary64_nonneg)
qed

lemma float_constants:
  "INA_226_CURRENT_REGISTER_LSB binary32_arith = 8589935 / 8589934592"
  "INA_226_VOLTAGE_REGISTER_LSB binary32_arith = 5368709 / 4294967296"
  "INA_226_POWER_REGISTER_LSB binary32_arith = 13421773 / 536870912"
  "INA_226_CALIBRATION_REGISTER_CONSTANT binary32_arith = 2748779 / 536870912"
proof -
  show c: "INA_226_CURRENT_REGISTER_LSB binary32_arith = 8589935 / 8589934592"
    by (simp only: INA_226_CURRENT_REGISTER_LSB_def binary32_arith_simps double_0_001 float_0_001)
  show "INA_226_VOLTAGE_REGISTER_LSB binary32_arith = 5368709 / 4294967296"
    by (simp only: INA_226_VOLTAGE_REGISTER_LSB_def binary32_arith_simps double_0_00125 float_0_00125)
  show "INA_226_POWER_REGISTER_LSB binary32_arith = 13421773 / 536870912"
    by (simp only: INA_226_POWER_REGISTER_LSB_def c binary32_arith_simps of_int_numeral
          float_25 float_power_lsb)
  show "INA_226_CALIBRATION_REGISTER_CONSTANT binary32_arith = 2748779 / 536870912"
    by (simp only: INA_226_CALIBRATION_REGISTER_CONSTANT_def binary32_arith_simps
          double_0_00512 float_0_00512)
qed

lemma float_maxima:
  "fmul binary32_arith (fof_int binary32_arith 65535) (INA_226_CURRENT_REGISTER_LSB binary32_arith)
     = 2147451 / 32768"
  "fmul binary32_arith (fof_int binary32_arith 65535) (INA_226_VOLTAGE_REGISTER_LSB binary32_arith)
     = 5368627 / 65536"
  "fmul binary32_arith (fof_int binary32_arith 65535) (INA_226_POWER_REGISTER_LSB binary32_arith)
     = 13107 / 8"
  by (simp_all only: float_constants binary32_arith_simps of_int_numeral float_65535
        float_current_max float_voltage_max float_power_max)

section \<open>The calibration value\<close>







section \<open>The status the register writes return\<close>

lemma configureSensor_outcome:
  "\<exists>cmd. length cmd = 3 \<and> cmd ! 0 = m_config_register this \<and>
     configureSensor T this m =
       (case i2c_write T (i2c this) (m_sensor_address this) cmd 3 of
          (Inl e, bus1) \<Rightarrow> (Inl e, this\<lparr>i2c := bus1\<rparr>)
        | (Inr s, bus1) \<Rightarrow> (Inr 0, this\<lparr>i2c := bus1\<rparr>))"
  unfolding configureSensor_def Let_def
  by (rule exI [of _ "[m_config_register this, _, _]"]) (simp split: prod.splits sum.splits)

lemma calibrateSensor_outcome:
  "\<exists>cmd. length cmd = 3 \<and> cmd ! 0 = m_calibration_register this \<and>
     calibrateSensor F T this =
       (case i2c_write T (i2c this) (m_sensor_address this) cmd 3 of
          (Inl e, bus1) \<Rightarrow> (Inl e, this\<lparr>i2c := bus1\<rparr>)
        | (Inr s, bus1) \<Rightarrow> (Inr 0, this\<lparr>i2c := bus1\<rparr>))"
  unfolding calibrateSensor_def Let_def
  by (rule exI [of _ "[m_calibration_register this, _, _]"]) (simp split: prod.splits sum.splits)

lemma setMaskEnableRegister_outcome:
  "\<exists>cmd. length cmd = 3 \<and> cmd ! 0 = m_mask_enable_register this \<and>
     setMaskEnableRegister T this v =
       (case i2c_write T (i2c this) (m_sensor_address this) cmd 3 of
          (Inl e, bus1) \<Rightarrow> (Inl e, this\<lparr>i2c := bus1\<rparr>)
        | (Inr s, bus1) \<Rightarrow> (Inr 0, this\<lparr>i2c := bus1\<rparr>))"
  unfolding setMaskEnableRegister_def Let_def
  by (rule exI [of _ "[m_mask_enable_register this, _, _]"]) (simp split: prod.splits sum.splits)

lemma setAlertLimit_outcome:
  "\<exists>cmd. length cmd = 3 \<and> cmd ! 0 = m_alert_limit_register this \<and>
     setAlertLimit T this v =
       (case i2c_write T (i2c this) (m_sensor_address this) cmd 3 of
          (Inl e, bus1) \<Rightarrow> (Inl e, this\<lparr>i2c := bus1\<rparr>)
        | (Inr s, bus1) \<Rightarrow> (Inr 0, this\<lparr>i2c := bus1\<rparr>))"
  unfolding setAlertLimit_def Let_def
  by (rule exI [of _ "[m_alert_limit_register this, _, _]"]) (simp split: prod.splits sum.splits)

lemma returns_0:
  assumes "\<forall>bus a buf n. \<exists>s bus1. i2c_write T bus a buf n = (Inr s, bus1)"
    and "\<exists>cmd. P cmd \<and> r =
       (case i2c_write T (i2c this) (m_sensor_address this) cmd 3 of
          (Inl e, bus1) \<Rightarrow> (Inl e, this\<lparr>i2c := bus1\<rparr>)
        | (Inr s, bus1) \<Rightarrow> (Inr 0, this\<lparr>i2c := bus1\<rparr>))"
  shows "fst r = Inr (0 :: int)"
proof -
  from assms(2) obtain cmd where r: "r =
       (case i2c_write T (i2c this) (m_sensor_address this) cmd 3 of
          (Inl e, bus1) \<Rightarrow> (Inl e, this\<lparr>i2c := bus1\<rparr>)
        | (Inr s, bus1) \<Rightarrow> (Inr 0, this\<lparr>i2c := bus1\<rparr>))"
    by blast
  from assms(1) obtain s bus1 where "i2c_write T (i2c this) (m_sensor_address this) cmd 3 = (Inr s, bus1)"
    by blast
  with r show ?thesis by simp
qed

lemma nack_write: "i2c_write nack_i2c bus a buf n = (Inr 1, Suc bus)"
  by (simp add: nack_i2c_def)

text \<open>
  Claim C5. Each of \<^verbatim>\<open>configureSensor\<close>, \<^verbatim>\<open>calibrateSensor\<close>,
  \<^verbatim>\<open>setMaskEnableRegister\<close> and \<^verbatim>\<open>setAlertLimit\<close> returns 0 whatever status the bus
  write returns: on a transport whose write returns, every one of them returns 0 for
  every input. Each performs one write of three bytes that begin with its register
  address, and its outcome is 0 unless that write raises, in which case what was
  raised passes through.
\<close>

theorem writes_report_success:
  "((\<forall>bus a buf n. \<exists>s bus1. i2c_write T bus a buf n = (Inr s, bus1)) \<longrightarrow>
      fst (configureSensor T this m) = Inr 0
    \<and> fst (calibrateSensor F T this) = Inr 0
    \<and> fst (setMaskEnableRegister T this v) = Inr 0
    \<and> fst (setAlertLimit T this v) = Inr 0)
 \<and> (\<exists>cmd. length cmd = 3 \<and> cmd ! 0 = m_config_register this \<and>
       configureSensor T this m =
         (case i2c_write T (i2c this) (m_sensor_address this) cmd 3 of
            (Inl e, bus1) \<Rightarrow> (Inl e, this\<lparr>i2c := bus1\<rparr>)
          | (Inr s, bus1) \<Rightarrow> (Inr 0, this\<lparr>i2c := bus1\<rparr>)))
 \<and> (\<exists>cmd. length cmd = 3 \<and> cmd ! 0 = m_calibration_register this \<and>
       calibrateSensor F T this =
         (case i2c_write T (i2c this) (m_sensor_address this) cmd 3 of
            (Inl e, bus1) \<Rightarrow> (Inl e, this\<lparr>i2c := bus1\<rparr>)
          | (Inr s, bus1) \<Rightarrow> (Inr 0, this\<lparr>i2c := bus1\<rparr>)))
 \<and> (\<exists>cmd. length cmd = 3 \<and> cmd ! 0 = m_mask_enable_register this \<and>
       setMaskEnableRegister T this v =
         (case i2c_write T (i2c this) (m_sensor_address this) cmd 3 of
            (Inl e, bus1) \<Rightarrow> (Inl e, this\<lparr>i2c := bus1\<rparr>)
          | (Inr s, bus1) \<Rightarrow> (Inr 0, this\<lparr>i2c := bus1\<rparr>)))
 \<and> (\<exists>cmd. length cmd = 3 \<and> cmd ! 0 = m_alert_limit_register this \<and>
       setAlertLimit T this v =
         (case i2c_write T (i2c this) (m_sensor_address this) cmd 3 of
            (Inl e, bus1) \<Rightarrow> (Inl e, this\<lparr>i2c := bus1\<rparr>)
          | (Inr s, bus1) \<Rightarrow> (Inr 0, this\<lparr>i2c := bus1\<rparr>)))"
  using configureSensor_outcome [of this T m] calibrateSensor_outcome [of this F T]
    setMaskEnableRegister_outcome [of this T v] setAlertLimit_outcome [of this T v]
    returns_0 [of T _ "configureSensor T this m" this]
    returns_0 [of T _ "calibrateSensor F T this" this]
    returns_0 [of T _ "setMaskEnableRegister T this v" this]
    returns_0 [of T _ "setAlertLimit T this v" this]
  by blast

text \<open>On the bus where no device answers, every write returns the status 1.\<close>

theorem writes_report_success_witness:
  "(\<forall>bus a buf n. \<exists>s bus1. i2c_write nack_i2c bus a buf n = (Inr s, bus1))
 \<and> fst (i2c_write nack_i2c (i2c silent) (m_sensor_address silent) [m_alert_limit_register silent, 0xEF, 0xBE] 3) = Inr 1
 \<and> fst (configureSensor nack_i2c silent
       \<lparr>operation_mode = 0b111, shunt_voltage_conversion_setting = 0,
        bus_voltage_conversion_setting = 0, average_mode_setting = 0, reset_registers = 0\<rparr>) = Inr 0
 \<and> fst (calibrateSensor exact_arith nack_i2c silent) = Inr 0
 \<and> fst (setMaskEnableRegister nack_i2c silent 0x8000) = Inr 0
 \<and> fst (setAlertLimit nack_i2c silent 0xBEEF) = Inr 0"
  using writes_report_success [of nack_i2c silent
      "\<lparr>operation_mode = 0b111, shunt_voltage_conversion_setting = 0,
        bus_voltage_conversion_setting = 0, average_mode_setting = 0, reset_registers = 0\<rparr>"
      exact_arith "0x8000"]
    writes_report_success [of nack_i2c silent _ exact_arith "0xBEEF"]
  by (simp add: nack_write)

section \<open>Failures of the bus during a reading\<close>

lemma silent_simps:
  "i2c silent = 0" "m_sensor_address silent = 0x80" "m_current_register silent = 0x04"
  by (simp_all add: silent_def bench_config_def INA_226_def nack_i2c_def)

lemma flaky_simps:
  "i2c (flaky n) = n" "m_sensor_address (flaky n) = 0x80"
  "m_current_register (flaky n) = 0x04" "m_voltage_register (flaky n) = 0x01"
  "m_power_register (flaky n) = 0x03" "(flaky n)\<lparr>i2c := k\<rparr> = flaky k"
  by (simp_all add: flaky_def bench_config_def INA_226_def)

lemma nack_transfers:
  "i2c_write nack_i2c 0 a buf n = (Inr 1, 1)"
  "i2c_read nack_i2c 1 a n r = (Inr (1, []), 2)"
  by (simp_all add: nack_i2c_def numeral_2_eq_2)

lemma flaky_transfers:
  "i2c_write flaky_i2c 0 a buf n = (Inl Timeout, 1)"
  "i2c_write flaky_i2c 1 a buf n = (Inr 0, 2)"
  "i2c_read flaky_i2c 2 a 2 r = (Inl Timeout, 3)"
  "i2c_read flaky_i2c 1 a 2 r = (Inr (0, [0, 0]), 2)"
  by (simp_all add: flaky_i2c_def numeral_2_eq_2)

text \<open>
  Claim C6 says that every failure of the bus during \<^verbatim>\<open>getCurrentData\<close>,
  \<^verbatim>\<open>getVoltageData\<close> or \<^verbatim>\<open>getPowerData\<close> reaches the caller as the transport
  signals it. It does not when the transport signals the failure through the status
  it returns: on the bus where no device answers, both transfers of
  \<^verbatim>\<open>getCurrentData\<close> return the status 1, the read delivers nothing, and the accessor
  returns 0.004, the register address left in the buffer times 0.001.
\<close>

theorem failure_status_discarded:
  "fst (i2c_write nack_i2c (i2c silent) (m_sensor_address silent) [m_current_register silent, 0x00] 1) = Inr 1
 \<and> fst (i2c_read nack_i2c (Suc (i2c silent)) (m_sensor_address silent) 2 False) = Inr (1, [])
 \<and> getCurrentData exact_arith nack_i2c silent = (Inr (4 / 1000), silent\<lparr>i2c := 2\<rparr>)"
  by (simp add: getCurrentData_def silent_simps nack_i2c_def store_received_def
        exact_arith_simps LSB_defs)

text \<open>
  Claim C6, amended. A failure that the transport raises during \<^verbatim>\<open>getCurrentData\<close>,
  \<^verbatim>\<open>getVoltageData\<close> or \<^verbatim>\<open>getPowerData\<close> reaches the caller as it was raised, and
  the bus is left as the failing transfer left it: nothing is caught and no transfer
  is repeated. When both transfers return, whatever their status, the accessor
  returns a reading.
\<close>

theorem raised_failure_propagates:
  "(i2c_write T (i2c this) (m_sensor_address this) [m_current_register this, 0x00] 1 = (Inl e, bus1) \<longrightarrow>
      getCurrentData F T this = (Inl e, this\<lparr>i2c := bus1\<rparr>))
 \<and> (i2c_write T (i2c this) (m_sensor_address this) [m_current_register this, 0x00] 1 = (Inr s, bus1) \<and>
    i2c_read T bus1 (m_sensor_address this) 2 False = (Inl e, bus2) \<longrightarrow>
      getCurrentData F T this = (Inl e, this\<lparr>i2c := bus2\<rparr>))
 \<and> (i2c_write T (i2c this) (m_sensor_address this) [m_current_register this, 0x00] 1 = (Inr s, bus1) \<and>
    i2c_read T bus1 (m_sensor_address this) 2 False = (Inr (s', d), bus2) \<longrightarrow>
      (\<exists>x. getCurrentData F T this = (Inr x, this\<lparr>i2c := bus2\<rparr>)))
 \<and> (i2c_write T (i2c this) (m_sensor_address this) [m_voltage_register this, 0x00] 1 = (Inl e, bus1) \<longrightarrow>
      getVoltageData F T this = (Inl e, this\<lparr>i2c := bus1\<rparr>))
 \<and> (i2c_write T (i2c this) (m_sensor_address this) [m_voltage_register this, 0x00] 1 = (Inr s, bus1) \<and>
    i2c_read T bus1 (m_sensor_address this) 2 False = (Inl e, bus2) \<longrightarrow>
      getVoltageData F T this = (Inl e, this\<lparr>i2c := bus2\<rparr>))
 \<and> (i2c_write T (i2c this) (m_sensor_address this) [m_voltage_register this, 0x00] 1 = (Inr s, bus1) \<and>
    i2c_read T bus1 (m_sensor_address this) 2 False = (Inr (s', d), bus2) \<longrightarrow>
      (\<exists>x. getVoltageData F T this = (Inr x, this\<lparr>i2c := bus2\<rparr>)))
 \<and> (i2c_write T (i2c this) (m_sensor_address this) [m_power_register this, 0x00] 1 = (Inl e, bus1) \<longrightarrow>
      getPowerData F T this = (Inl e, this\<lparr>i2c := bus1\<rparr>))
 \<and> (i2c_write T (i2c this) (m_sensor_address this) [m_power_register this, 0x00] 1 = (Inr s, bus1) \<and>
    i2c_read T bus1 (m_sensor_address this) 2 False = (Inl e, bus2) \<longrightarrow>
      getPowerData F T this = (Inl e, this\<lparr>i2c := bus2\<rparr>))
 \<and> (i2c_write T (i2c this) (m_sensor_address this) [m_power_register this, 0x00] 1 = (Inr s, bus1) \<and>
    i2c_read T bus1 (m_sensor_address this) 2 False = (Inr (s', d), bus2) \<longrightarrow>
      (\<exists>x. getPowerData F T this = (Inr x, this\<lparr>i2c := bus2\<rparr>)))"
  by (simp add: getCurrentData_def getVoltageData_def getPowerData_def Let_def)

text \<open>
  On the bus where every other transfer times out: the write fails on the fresh bus,
  the read fails on a bus that has seen one transfer. After each failure the bus has
  seen exactly the transfers up to the failing one, although the next transfer would
  have succeeded.
\<close>

theorem raised_failure_propagates_witness:
  "i2c_write flaky_i2c (i2c (flaky 0)) (m_sensor_address (flaky 0)) [m_current_register (flaky 0), 0x00] 1 = (Inl Timeout, 1)
 \<and> getCurrentData exact_arith flaky_i2c (flaky 0) = (Inl Timeout, flaky 1)
 \<and> getVoltageData exact_arith flaky_i2c (flaky 0) = (Inl Timeout, flaky 1)
 \<and> getPowerData exact_arith flaky_i2c (flaky 0) = (Inl Timeout, flaky 1)
 \<and> i2c_write flaky_i2c (i2c (flaky 1)) (m_sensor_address (flaky 1)) [m_current_register (flaky 1), 0x00] 1 = (Inr 0, 2)
 \<and> i2c_read flaky_i2c 2 (m_sensor_address (flaky 1)) 2 False = (Inl Timeout, 3)
 \<and> getCurrentData exact_arith flaky_i2c (flaky 1) = (Inl Timeout, flaky 3)
 \<and> getVoltageData exact_arith flaky_i2c (flaky 1) = (Inl Timeout, flaky 3)
 \<and> getPowerData exact_arith flaky_i2c (flaky 1) = (Inl Timeout, flaky 3)
 \<and> i2c_write nack_i2c (i2c silent) (m_sensor_address silent) [m_current_register silent, 0x00] 1 = (Inr 1, 1)
 \<and> i2c_read nack_i2c 1 (m_sensor_address silent) 2 False = (Inr (1, []), 2)
 \<and> (\<exists>x. getCurrentData exact_arith nack_i2c silent = (Inr x, silent\<lparr>i2c := 2\<rparr>))
 \<and> (\<exists>x. getVoltageData exact_arith nack_i2c silent = (Inr x, silent\<lparr>i2c := 2\<rparr>))
 \<and> (\<exists>x. getPowerData exact_arith nack_i2c silent = (Inr x, silent\<lparr>i2c := 2\<rparr>))"
  using raised_failure_propagates [of flaky_i2c "flaky 0" Timeout 1 exact_arith]
    raised_failure_propagates [of flaky_i2c "flaky 1" Timeout 2 exact_arith 0 3]
    raised_failure_propagates [of nack_i2c silent _ 1 exact_arith 1 2 1 "[]"]
  by (simp add: flaky_simps flaky_transfers silent_simps nack_transfers del: One_nat_def)

section \<open>The alert limit\<close>

text \<open>
  Claim C7. On the mock register store, \<^verbatim>\<open>setAlertLimit\<close> of a 16-bit value \<open>v\<close>
  followed by \<^verbatim>\<open>getAlertLimit\<close> returns \<open>v\<close>, from any state of the object and of
  the store. The value is not scaled on the way: the store holds the two bytes of
  \<open>v\<close>, low byte first.
\<close>

theorem alert_limit_round_trip:
  "fst (getAlertLimit mock_i2c (snd (setAlertLimit mock_i2c this v))) = Inr v
 \<and> fst (setAlertLimit mock_i2c this v) = Inr 0
 \<and> regs (i2c (snd (setAlertLimit mock_i2c this v))) (m_alert_limit_register this)
      = [ucast v, ucast (drop_bit 8 v)]"
  by (simp add: setAlertLimit_def getAlertLimit_def Let_def mock_i2c_def mock_write_def
        mock_read_def store_received_def low_byte_mask high_byte_mask split_reassemble)

section \<open>Construction\<close>

text \<open>
  Claim C8. The constructor sets \<^verbatim>\<open>m_current_lsb\<close> to \<open>max_expected_current / 2^15\<close>
  (32768 in exact arithmetic), copies the shunt resistance, and stores the device
  address shifted left by one bit: for a 7-bit address the stored address is twice the
  address, and \<open>0x40\<close> becomes \<open>0x80\<close>.
\<close>

theorem construction:
  "m_current_lsb (INA_226 F T c) = fdiv F (max_expected_current c) (fpow F 2 15)
 \<and> m_current_lsb (INA_226 exact_arith T c') = max_expected_current c' / 32768
 \<and> m_shunt_resistance (INA_226 F T c) = shunt_resistance c
 \<and> m_sensor_address (INA_226 F T c) = push_bit 1 (sensor_address c)
 \<and> (uint (sensor_address c) < 128 \<longrightarrow>
      uint (m_sensor_address (INA_226 F T c)) = 2 * uint (sensor_address c))
 \<and> (sensor_address c = 0x40 \<longrightarrow> m_sensor_address (INA_226 F T c) = 0x80)"
proof -
  have "uint (push_bit 1 (sensor_address c)) = 2 * uint (sensor_address c)"
    if "uint (sensor_address c) < 128"
  proof -
    have "uint (push_bit 1 (sensor_address c)) = (2 * uint (sensor_address c)) mod 256"
      by (simp add: push_bit_eq_mult uint_word_ariths mult.commute)
    also have "\<dots> = 2 * uint (sensor_address c)"
      using that by simp
    finally show ?thesis .
  qed
  then show ?thesis
    by (simp add: INA_226_def exact_arith_simps)
qed

text \<open>The configuration of the examples has the address \<open>0x40\<close>.\<close>

theorem construction_witness:
  "uint (sensor_address bench_config) < 128
 \<and> sensor_address bench_config = 0x40
 \<and> uint (m_sensor_address (INA_226 exact_arith mock_i2c bench_config)) = 2 * 64
 \<and> m_sensor_address (INA_226 exact_arith mock_i2c bench_config) = 0x80
 \<and> m_current_lsb (INA_226 exact_arith mock_i2c bench_config) = 1 / 32768
 \<and> m_shunt_resistance (INA_226 exact_arith mock_i2c bench_config) = 2 / 1000"
  using construction [of exact_arith mock_i2c bench_config bench_config]
  by (simp add: bench_config_def)

section \<open>The register addresses\<close>

lemma invoke_register_map: "register_map (invoke F T k this) = register_map this"
  by (cases k)
     (simp_all add: register_map_def getCurrentData_def getVoltageData_def getPowerData_def
        getAlertLimit_def configureSensor_def calibrateSensor_def setMaskEnableRegister_def
        setAlertLimit_def Let_def split: prod.splits sum.splits)

lemma run_register_map: "register_map (run F T ks this) = register_map this"
  by (induction ks arbitrary: this) (simp_all add: invoke_register_map)

text \<open>
  Claim C9. The constructor sets the seven register addresses to \<open>0x00\<close>, \<open>0x01\<close>,
  \<open>0x03\<close>, \<open>0x04\<close>, \<open>0x05\<close>, \<open>0x06\<close>, \<open>0x07\<close> (configuration, voltage, power,
  current, calibration, mask/enable, alert limit), and no method changes any of them:
  after any sequence of calls on the constructed object they have these values.
\<close>

theorem register_map_fixed:
  "register_map (INA_226 F T c) = (0x00, 0x01, 0x03, 0x04, 0x05, 0x06, 0x07)
 \<and> register_map (invoke F T k this) = register_map this
 \<and> register_map (run F T ks this) = register_map this
 \<and> register_map (run F T ks (INA_226 F T c)) = (0x00, 0x01, 0x03, 0x04, 0x05, 0x06, 0x07)"
  by (simp add: invoke_register_map run_register_map) (simp add: register_map_def INA_226_def)

section \<open>The readings are unsigned\<close>

lemma uint16_range: "0 \<le> uint (w :: u_int16_t) \<and> uint w \<le> 65535"
  using uint_bounded [of w] by simp

lemma scale_nonneg:
  assumes "order_preserving F"
  shows "fof_int F 0 \<le> INA_226_CURRENT_REGISTER_LSB F"
    and "fof_int F 0 \<le> INA_226_VOLTAGE_REGISTER_LSB F"
    and "fof_int F 0 \<le> INA_226_POWER_REGISTER_LSB F"
proof -
  show c: "fof_int F 0 \<le> INA_226_CURRENT_REGISTER_LSB F"
    using assms by (simp add: order_preserving_def INA_226_CURRENT_REGISTER_LSB_def)
  show "fof_int F 0 \<le> INA_226_VOLTAGE_REGISTER_LSB F"
    using assms by (simp add: order_preserving_def INA_226_VOLTAGE_REGISTER_LSB_def)
  have "fof_int F 0 \<le> fof_int F 25"
    using assms by (simp add: order_preserving_def)
  with c have "fmul F (fof_int F 0) (INA_226_CURRENT_REGISTER_LSB F)
      \<le> fmul F (fof_int F 25) (INA_226_CURRENT_REGISTER_LSB F)"
    using assms unfolding order_preserving_def by blast
  moreover have "fmul F (fof_int F 0) (INA_226_CURRENT_REGISTER_LSB F) = fof_int F 0"
    using assms unfolding order_preserving_def by blast
  ultimately show "fof_int F 0 \<le> INA_226_POWER_REGISTER_LSB F"
    by (simp add: INA_226_POWER_REGISTER_LSB_def)
qed

lemma scaled_between:
  fixes w :: u_int16_t
  assumes "order_preserving F" and "fof_int F 0 \<le> k"
  shows "fof_int F 0 \<le> fmul F (fof_int F (uint w)) k
       \<and> fmul F (fof_int F (uint w)) k \<le> fmul F (fof_int F 65535) k"
proof -
  have lo: "fof_int F 0 \<le> fof_int F (uint w)" and hi: "fof_int F (uint w) \<le> fof_int F 65535"
    using assms(1) uint16_range [of w] unfolding order_preserving_def by blast+
  have "fmul F (fof_int F 0) k \<le> fmul F (fof_int F (uint w)) k"
    using assms lo unfolding order_preserving_def by blast
  moreover have "fmul F (fof_int F 0) k = fof_int F 0"
    using assms(1) unfolding order_preserving_def by blast
  moreover have "fmul F (fof_int F (uint w)) k \<le> fmul F (fof_int F 65535) k"
    using assms hi unfolding order_preserving_def by blast
  ultimately show ?thesis
    by simp
qed

lemma bench32_receives: "receives mock_i2c bench32 reg [0xFF, 0xFF]"
  by (simp add: receives_def bench32_def mock_i2c_def mock_write_def mock_read_def saturated_def)

lemma top_0xFFFF: "256 * uint (0xFF :: u_int8_t) + uint (0xFF :: u_int8_t) = 65535"
  by simp

text \<open>
  Claim C10 says that the readings are never negative and never exceed 65535 times
  the scale factor, so that \<^verbatim>\<open>getCurrentData\<close> never exceeds 65.535. In binary32 it
  does: for the raw value \<open>0xFFFF\<close> it returns \<open>2147451/32768 = 65.5350037...\<close>, the
  \<^verbatim>\<open>float\<close> nearest to the product of 65535 and the \<^verbatim>\<open>float\<close> constant 0.001, which
  is above 65.535.
\<close>

theorem current_exceeds_65_535:
  "receives mock_i2c bench32 (m_current_register bench32) [0xFF, 0xFF]
 \<and> fst (getCurrentData binary32_arith mock_i2c bench32) = Inr (2147451 / 32768)
 \<and> (65535 * (1 / 1000) :: rat) < 2147451 / 32768"
proof -
  have "fst (getCurrentData binary32_arith mock_i2c bench32)
      = Inr (fmul binary32_arith (fof_int binary32_arith 65535)
               (INA_226_CURRENT_REGISTER_LSB binary32_arith))"
    using getCurrentData_receives [OF bench32_receives, of binary32_arith]
    by (simp only: uint_reassemble top_0xFFFF)
  then show ?thesis
    using bench32_receives by (simp add: float_maxima)
qed

text \<open>
  Claim C10, amended. For every pair of bytes \<open>b0, b1\<close> delivered by the bus, the four
  accessors read the reassembled value \<open>256 \<times> b1 + b0\<close> as unsigned, a value between
  0 and 65535 also where the chip means a negative number. In every arithmetic that
  preserves the order, binary32 and exact arithmetic among them, the readings of
  \<^verbatim>\<open>getCurrentData\<close>, \<^verbatim>\<open>getVoltageData\<close> and \<^verbatim>\<open>getPowerData\<close> are never negative and
  never exceed the product, in that arithmetic, of 65535 and the scale constant. In
  binary32 these products are \<open>2147451/32768\<close> (65.5350037, above 65.535),
  \<open>5368627/65536\<close> (81.9187469) and \<open>13107/8\<close> (1638.375); in exact arithmetic they
  are 65.535, 81.91875 and 1638.375. \<^verbatim>\<open>getAlertLimit\<close> returns the value itself,
  between 0 and 65535.
\<close>

theorem readings_bounded:
  "(order_preserving F \<and> receives T this (m_current_register this) [b0, b1] \<longrightarrow>
      (\<exists>x. fst (getCurrentData F T this) = Inr x
         \<and> x = fmul F (fof_int F (256 * uint b1 + uint b0)) (INA_226_CURRENT_REGISTER_LSB F)
         \<and> fof_int F 0 \<le> x
         \<and> x \<le> fmul F (fof_int F 65535) (INA_226_CURRENT_REGISTER_LSB F)))
 \<and> (order_preserving F \<and> receives T this (m_voltage_register this) [b0, b1] \<longrightarrow>
      (\<exists>x. fst (getVoltageData F T this) = Inr x
         \<and> x = fmul F (fof_int F (256 * uint b1 + uint b0)) (INA_226_VOLTAGE_REGISTER_LSB F)
         \<and> fof_int F 0 \<le> x
         \<and> x \<le> fmul F (fof_int F 65535) (INA_226_VOLTAGE_REGISTER_LSB F)))
 \<and> (order_preserving F \<and> receives T this (m_power_register this) [b0, b1] \<longrightarrow>
      (\<exists>x. fst (getPowerData F T this) = Inr x
         \<and> x = fmul F (fof_int F (256 * uint b1 + uint b0)) (INA_226_POWER_REGISTER_LSB F)
         \<and> fof_int F 0 \<le> x
         \<and> x \<le> fmul F (fof_int F 65535) (INA_226_POWER_REGISTER_LSB F)))
 \<and> (receives T this (m_alert_limit_register this) [b0, b1] \<longrightarrow>
      (\<exists>alert. fst (getAlertLimit T this) = Inr alert
         \<and> uint alert = 256 * uint b1 + uint b0 \<and> 0 \<le> uint alert \<and> uint alert \<le> 65535))
 \<and> order_preserving binary32_arith
 \<and> fof_int binary32_arith 0 = 0
 \<and> fmul binary32_arith (fof_int binary32_arith 65535) (INA_226_CURRENT_REGISTER_LSB binary32_arith)
      = 2147451 / 32768
 \<and> fmul binary32_arith (fof_int binary32_arith 65535) (INA_226_VOLTAGE_REGISTER_LSB binary32_arith)
      = 5368627 / 65536
 \<and> fmul binary32_arith (fof_int binary32_arith 65535) (INA_226_POWER_REGISTER_LSB binary32_arith)
      = 13107 / 8
 \<and> order_preserving exact_arith
 \<and> fof_int exact_arith 0 = 0
 \<and> fmul exact_arith (fof_int exact_arith 65535) (INA_226_CURRENT_REGISTER_LSB exact_arith)
      = 65535 * (1 / 1000)
 \<and> fmul exact_arith (fof_int exact_arith 65535) (INA_226_VOLTAGE_REGISTER_LSB exact_arith)
      = 65535 * (125 / 100000)
 \<and> fmul exact_arith (fof_int exact_arith 65535) (INA_226_POWER_REGISTER_LSB exact_arith)
      = 65535 * (25 / 1000)"
proof -
  let ?w = "push_bit 8 (ucast b1) OR ucast b0 :: u_int16_t"
  have w: "uint ?w = 256 * uint b1 + uint b0"
    by (rule uint_reassemble)
  have current: "\<exists>x. fst (getCurrentData F T this) = Inr x
         \<and> x = fmul F (fof_int F (256 * uint b1 + uint b0)) (INA_226_CURRENT_REGISTER_LSB F)
         \<and> fof_int F 0 \<le> x
         \<and> x \<le> fmul F (fof_int F 65535) (INA_226_CURRENT_REGISTER_LSB F)"
    if "order_preserving F" "receives T this (m_current_register this) [b0, b1]"
    using getCurrentData_receives [OF that(2), of F]
      scaled_between [OF that(1) scale_nonneg(1) [OF that(1)], of ?w]
    by (simp add: w)
  have voltage: "\<exists>x. fst (getVoltageData F T this) = Inr x
         \<and> x = fmul F (fof_int F (256 * uint b1 + uint b0)) (INA_226_VOLTAGE_REGISTER_LSB F)
         \<and> fof_int F 0 \<le> x
         \<and> x \<le> fmul F (fof_int F 65535) (INA_226_VOLTAGE_REGISTER_LSB F)"
    if "order_preserving F" "receives T this (m_voltage_register this) [b0, b1]"
    using getVoltageData_receives [OF that(2), of F]
      scaled_between [OF that(1) scale_nonneg(2) [OF that(1)], of ?w]
    by (simp add: w)
  have power: "\<exists>x. fst (getPowerData F T this) = Inr x
         \<and> x = fmul F (fof_int F (256 * uint b1 + uint b0)) (INA_226_POWER_REGISTER_LSB F)
         \<and> fof_int F 0 \<le> x
         \<and> x \<le> fmul F (fof_int F 65535) (INA_226_POWER_REGISTER_LSB F)"
    if "order_preserving F" "receives T this (m_power_register this) [b0, b1]"
    using getPowerData_receives [OF that(2), of F]
      scaled_between [OF that(1) scale_nonneg(3) [OF that(1)], of ?w]
    by (simp add: w)
  have alert: "\<exists>alert. fst (getAlertLimit T this) = Inr alert
         \<and> uint alert = 256 * uint b1 + uint b0 \<and> 0 \<le> uint alert \<and> uint alert \<le> 65535"
    if "receives T this (m_alert_limit_register this) [b0, b1]"
    using getAlertLimit_receives [OF that] uint16_range [of ?w]
    by (simp add: w)
  have zero32: "fof_int binary32_arith 0 = 0"
    by (simp add: binary32_arith_simps binary32_0)
  have exact: "fof_int exact_arith 0 = 0"
    "fmul exact_arith (fof_int exact_arith 65535) (INA_226_CURRENT_REGISTER_LSB exact_arith)
      = 65535 * (1 / 1000)"
    "fmul exact_arith (fof_int exact_arith 65535) (INA_226_VOLTAGE_REGISTER_LSB exact_arith)
      = 65535 * (125 / 100000)"
    "fmul exact_arith (fof_int exact_arith 65535) (INA_226_POWER_REGISTER_LSB exact_arith)
      = 65535 * (25 / 1000)"
    by (simp_all add: exact_arith_simps LSB_defs)
  show ?thesis
    apply (intro conjI impI)
                  apply (erule conjE, erule (1) current)
                 apply (erule conjE, erule (1) voltage)
                apply (erule conjE, erule (1) power)
               apply (erule alert)
              apply (rule binary32_arith_order_preserving)
             apply (rule zero32)
            apply (rule float_maxima(1))
           apply (rule float_maxima(2))
          apply (rule float_maxima(3))
         apply (rule exact_arith_order_preserving)
        apply (rule exact(1))
       apply (rule exact(2))
      apply (rule exact(3))
     apply (rule exact(4))
    done
qed

text \<open>In binary32, on the register store that holds \<open>0xFF, 0xFF\<close> in every register.\<close>

theorem readings_bounded_witness:
  "order_preserving binary32_arith
 \<and> receives mock_i2c bench32 (m_current_register bench32) [0xFF, 0xFF]
 \<and> receives mock_i2c bench32 (m_voltage_register bench32) [0xFF, 0xFF]
 \<and> receives mock_i2c bench32 (m_power_register bench32) [0xFF, 0xFF]
 \<and> receives mock_i2c bench32 (m_alert_limit_register bench32) [0xFF, 0xFF]
 \<and> fst (getCurrentData binary32_arith mock_i2c bench32) = Inr (2147451 / 32768)
 \<and> fst (getVoltageData binary32_arith mock_i2c bench32) = Inr (5368627 / 65536)
 \<and> fst (getPowerData binary32_arith mock_i2c bench32) = Inr (13107 / 8)
 \<and> fst (getAlertLimit mock_i2c bench32) = Inr 0xFFFF"
proof -
  note inst = readings_bounded [of binary32_arith mock_i2c bench32 "0xFF" "0xFF"]
  have alert: "(a :: u_int16_t) = 0xFFFF" if "uint a = 256 * uint (0xFF :: u_int8_t) + uint (0xFF :: u_int8_t)" for a
  proof -
    from that have "uint a = uint (0xFFFF :: u_int16_t)" by simp
    then show ?thesis by (simp only: word_uint_eq_iff)
  qed
  show ?thesis
    using inst binary32_arith_order_preserving bench32_receives alert
    by (auto simp: float_maxima top_0xFFFF simp del: of_int_numeral)
qed

end
